theory Spec2Isabelle
  imports Complex_Main "HOL-Library.AList"
begin

section \<open>JavaScript values used by the retrieval core\<close>

text \<open>
  A JavaScript string is a sequence of UTF-16 code units: \<open>length\<close>, \<open>substring\<close>,
  \<open>trim\<close> and the regular expressions \<open>\s\<close> and \<open>\w\<close> all work on code units. A string
  of the program is therefore a list of code units (natural numbers); \<open>utf16\<close> writes an
  ASCII literal. Object keys and row identifiers, which the program only compares, are
  plain \<open>string\<close>s.

  A JavaScript number is modelled as an \<open>int\<close> where the program counts (offsets,
  sizes, indices) and as a \<open>real\<close> where it measures (similarities, fused scores):
  rounding of IEEE doubles is not modelled. Count parameters of the query functions
  (\<open>limit\<close>, \<open>topN\<close>) are natural numbers.
\<close>

type_synonym jsstring = "nat list"

definition utf16 :: "string \<Rightarrow> jsstring" where
  "utf16 s = map of_char s"

text \<open>The characters matched by \<open>\s\<close> and removed by \<open>trim()\<close>: white space and line terminators.\<close>

definition isWhiteSpace :: "nat \<Rightarrow> bool" where
  "isWhiteSpace c =
     (c \<in> {9, 10, 11, 12, 13, 32, 160, 5760, 8232, 8233, 8239, 8287, 12288, 65279}
      \<or> (8192 \<le> c \<and> c \<le> 8202))"

text \<open>The characters matched by \<open>\w\<close>: \<open>[A-Za-z0-9_]\<close>.\<close>

definition isWordChar :: "nat \<Rightarrow> bool" where
  "isWordChar c = ((65 \<le> c \<and> c \<le> 90) \<or> (97 \<le> c \<and> c \<le> 122) \<or> (48 \<le> c \<and> c \<le> 57) \<or> c = 95)"

definition trim :: "jsstring \<Rightarrow> jsstring" where
  "trim s = rev (dropWhile isWhiteSpace (rev (dropWhile isWhiteSpace s)))"

text \<open>
  \<open>s.substring(a, b)\<close>: both arguments are clamped to \<open>[0, length]\<close> and swapped when
  the first is the larger.
\<close>

definition substring :: "jsstring \<Rightarrow> int \<Rightarrow> int \<Rightarrow> jsstring" where
  "substring s a b =
     (let n = int (length s);
          a' = min (max a 0) n;
          b' = min (max b 0) n;
          lo = min a' b';
          hi = max a' b'
      in take (nat (hi - lo)) (drop (nat lo) s))"

text \<open>\<open>s.lastIndexOf(sep)\<close>: the largest index where \<open>sep\<close> occurs in \<open>s\<close>, or \<open>-1\<close>.\<close>

definition lastIndexOf :: "jsstring \<Rightarrow> jsstring \<Rightarrow> int" where
  "lastIndexOf s sep =
     (if length s < length sep then - 1
      else case filter (\<lambda>i. take (length sep) (drop i s) = sep)
                  (rev [0 ..< Suc (length s - length sep)]) of
             [] \<Rightarrow> - 1
           | i # _ \<Rightarrow> int i)"

text \<open>
  \<open>s.split(/\s+/)\<close>: the pieces between maximal runs of white space; a string that starts
  or ends with white space yields an empty first or last piece, and the empty string
  yields one empty piece. \<open>splitWs inRun cur s\<close> scans \<open>s\<close> with the piece \<open>cur\<close> under
  construction; \<open>inRun\<close> says that the previous character was white space, so that a
  further white-space character belongs to the same separator.
\<close>

fun splitWs :: "bool \<Rightarrow> jsstring \<Rightarrow> jsstring \<Rightarrow> jsstring list" where
  "splitWs inRun cur [] = [cur]"
| "splitWs inRun cur (c # cs) =
     (if isWhiteSpace c
      then (if inRun then splitWs True cur cs else cur # splitWs True [] cs)
      else splitWs False (cur @ [c]) cs)"

definition splitWhitespace :: "jsstring \<Rightarrow> jsstring list" where
  "splitWhitespace s = splitWs False [] s"

text \<open>\<open>word.replace(/[^\w]/g, "")\<close>.\<close>

definition stripNonWord :: "jsstring \<Rightarrow> jsstring" where
  "stripNonWord w = filter isWordChar w"

text \<open>\<open>parts.join(sep)\<close>.\<close>

fun join :: "jsstring \<Rightarrow> jsstring list \<Rightarrow> jsstring" where
  "join sep [] = []"
| "join sep [p] = p"
| "join sep (p # q # ps) = p @ sep @ join sep (q # ps)"

text \<open>
  Values stored under metadata keys. \<open>JNum\<close> is a number, \<open>JNaN\<close> the number \<open>NaN\<close>,
  \<open>JStr\<close> a string (the callers of the repository pass a page number or a URL).
\<close>

datatype jsvalue = JNum real | JNaN | JStr jsstring

type_synonym jsobject = "string \<rightharpoonup> jsvalue"

text \<open>
  \<open>n <= v\<close> for a number \<open>n\<close> and a property value \<open>v\<close>. A missing property is
  \<open>undefined\<close> and a string that is no numeric literal converts to \<open>NaN\<close>; every
  comparison with \<open>NaN\<close> is false. (A string that is a numeric literal would be
  converted to its number; the model does not parse strings and no statement below
  depends on that case.)
\<close>

fun jsLessEq :: "int \<Rightarrow> jsvalue option \<Rightarrow> bool" where
  "jsLessEq n (Some (JNum r)) = (real_of_int n \<le> r)"
| "jsLessEq n (Some JNaN) = False"
| "jsLessEq n (Some (JStr s)) = False"
| "jsLessEq n None = False"

text \<open>
  A computed number that may be \<open>NaN\<close> (\<open>0 / 0\<close>) is a \<open>real option\<close>, \<open>None\<close> being
  \<open>NaN\<close>.
\<close>

fun jsNumber :: "real option \<Rightarrow> jsvalue" where
  "jsNumber (Some r) = JNum r"
| "jsNumber None = JNaN"

text \<open>What the program can throw or an external service can reject with.\<close>

datatype error =
    VectorLengthError
  | TypeError
  | ProviderError string


section \<open>Fixed-window chunker (src/lib/document-processors/chunker.ts)\<close>

text \<open>
  \<open>ChunkConfig\<close>. The two sizes are integers; \<open>chunkOverlap\<close> may be negative or exceed
  \<open>chunkSize\<close>, as nothing in the source excludes it.
\<close>

record ChunkConfig =
  chunkSize :: int
  chunkOverlap :: int
  separators :: "jsstring list"

definition DEFAULT_CHUNK_CONFIG :: ChunkConfig where
  "DEFAULT_CHUNK_CONFIG =
     \<lparr>chunkSize = 1000, chunkOverlap = 200,
      separators = [[10, 10], [10], [46, 32], [32], []]\<rparr>"

text \<open>\<open>Partial<ChunkConfig>\<close>: each field may be absent.\<close>

record PartialChunkConfig =
  chunkSizeOpt :: "int option"
  chunkOverlapOpt :: "int option"
  separatorsOpt :: "jsstring list option"

text \<open>\<open>{ ...DEFAULT_CHUNK_CONFIG, ...config }\<close>.\<close>

definition resolveChunkConfig :: "PartialChunkConfig \<Rightarrow> ChunkConfig" where
  "resolveChunkConfig config =
     \<lparr>chunkSize = (case chunkSizeOpt config of Some v \<Rightarrow> v | None \<Rightarrow> chunkSize DEFAULT_CHUNK_CONFIG),
      chunkOverlap = (case chunkOverlapOpt config of Some v \<Rightarrow> v | None \<Rightarrow> chunkOverlap DEFAULT_CHUNK_CONFIG),
      separators = (case separatorsOpt config of Some v \<Rightarrow> v | None \<Rightarrow> separators DEFAULT_CHUNK_CONFIG)\<rparr>"

text \<open>
  \<open>TextChunk\<close> (and \<open>SemanticChunk\<close>, which has the same two fields): the content and
  a metadata object.
\<close>

record TextChunk =
  content :: jsstring
  metadata :: jsobject

text \<open>
  The metadata literal \<open>{ chunkIndex, startChar: startIndex, endChar: endIndex,
  ...additionalMetadata }\<close>: the spread comes last, so a key of the caller's object
  replaces the chunker's own value for that key.
\<close>

definition chunkMetadata :: "nat \<Rightarrow> int \<Rightarrow> int \<Rightarrow> jsobject \<Rightarrow> jsobject" where
  "chunkMetadata ci s e additionalMetadata =
     [''chunkIndex'' \<mapsto> JNum (real ci),
      ''startChar'' \<mapsto> JNum (real_of_int s),
      ''endChar'' \<mapsto> JNum (real_of_int e)] ++ additionalMetadata"

text \<open>
  The loop over \<open>separators\<close> (lines 59-67): the first separator other than \<open>""\<close> whose
  last occurrence in the window lies beyond \<open>chunkSize * 0.5\<close> gives the split point;
  \<open>-1\<close> when there is none.
\<close>

fun findSplitPoint :: "int \<Rightarrow> int \<Rightarrow> jsstring \<Rightarrow> jsstring list \<Rightarrow> int" where
  "findSplitPoint cs startIdx sub [] = - 1"
| "findSplitPoint cs startIdx sub (separator # rest) =
     (if separator = [] then findSplitPoint cs startIdx sub rest
      else (let lastIndex = lastIndexOf sub separator
            in if 2 * lastIndex > cs then startIdx + lastIndex + int (length separator)
               else findSplitPoint cs startIdx sub rest))"

text \<open>The variables of the \<open>while\<close> loop of \<open>chunkText\<close>.\<close>

record ChunkerState =
  chunks :: "TextChunk list"
  startIndex :: int
  chunkIndex :: nat

text \<open>The end of the window that starts at \<open>startIdx\<close> (lines 53-72).\<close>

definition windowEnd :: "ChunkConfig \<Rightarrow> jsstring \<Rightarrow> int \<Rightarrow> int" where
  "windowEnd cfg text startIdx =
     (let endIndex = min (startIdx + chunkSize cfg) (int (length text))
      in if endIndex < int (length text)
         then (let bestSplitPoint =
                     findSplitPoint (chunkSize cfg) startIdx (substring text startIdx endIndex)
                       (separators cfg)
               in if bestSplitPoint \<noteq> - 1 then bestSplitPoint else endIndex)
         else endIndex)"

text \<open>One iteration of the loop body (lines 53-94).\<close>

definition chunkStep :: "ChunkConfig \<Rightarrow> jsstring \<Rightarrow> jsobject \<Rightarrow> ChunkerState \<Rightarrow> ChunkerState" where
  "chunkStep cfg text additionalMetadata st =
     (let endIndex = windowEnd cfg text (startIndex st);
          content' = trim (substring text (startIndex st) endIndex);
          pushed = (length content' > 0);
          chunks' = (if pushed
                     then chunks st @
                       [\<lparr>content = content',
                         metadata = chunkMetadata (chunkIndex st) (startIndex st) endIndex additionalMetadata\<rparr>]
                     else chunks st);
          chunkIndex' = (if pushed then chunkIndex st + 1 else chunkIndex st);
          startIndex' = endIndex - chunkOverlap cfg
      in \<lparr>chunks = chunks',
          startIndex = (if chunks' \<noteq> [] \<and> jsLessEq startIndex' (metadata (last chunks') ''startChar'')
                        then endIndex else startIndex'),
          chunkIndex = chunkIndex'\<rparr>)"

text \<open>
  The \<open>while (startIndex < text.length)\<close> loop. Nothing in the source bounds the number
  of iterations, so the loop is a partial function: \<open>None\<close> is a call that never
  returns.
\<close>

partial_function (option) chunkLoop ::
    "ChunkConfig \<Rightarrow> jsstring \<Rightarrow> jsobject \<Rightarrow> ChunkerState \<Rightarrow> TextChunk list option" where
  "chunkLoop cfg text additionalMetadata st =
     (if startIndex st < int (length text)
      then chunkLoop cfg text additionalMetadata (chunkStep cfg text additionalMetadata st)
      else Some (chunks st))"

declare chunkLoop.simps [code]

definition chunkText :: "jsstring \<Rightarrow> PartialChunkConfig \<Rightarrow> jsobject \<Rightarrow> TextChunk list option" where
  "chunkText text config additionalMetadata =
     (let cfg = resolveChunkConfig config
      in if text = [] \<or> length (trim text) = 0 then Some []
         else chunkLoop cfg text additionalMetadata \<lparr>chunks = [], startIndex = 0, chunkIndex = 0\<rparr>)"

text \<open>
  The state after \<open>n\<close> iterations of the loop (the loop stops changing the state once its
  condition fails): what has been emitted so far, whether or not the call ever returns.
\<close>

fun chunkIterate :: "nat \<Rightarrow> ChunkConfig \<Rightarrow> jsstring \<Rightarrow> jsobject \<Rightarrow> ChunkerState \<Rightarrow> ChunkerState" where
  "chunkIterate 0 cfg text additionalMetadata st = st"
| "chunkIterate (Suc n) cfg text additionalMetadata st =
     (if startIndex st < int (length text)
      then chunkIterate n cfg text additionalMetadata (chunkStep cfg text additionalMetadata st)
      else st)"


section \<open>Semantic chunker (second file of src/unnamed/part_003)\<close>

record SemanticChunkConfig =
  maxChunkSize :: int
  minChunkSize :: int
  similarityThreshold :: real
  sentenceWindow :: int

definition DEFAULT_SEMANTIC_CONFIG :: SemanticChunkConfig where
  "DEFAULT_SEMANTIC_CONFIG =
     \<lparr>maxChunkSize = 1500, minChunkSize = 200, similarityThreshold = 3 / 4, sentenceWindow = 3\<rparr>"

record PartialSemanticChunkConfig =
  maxChunkSizeOpt :: "int option"
  minChunkSizeOpt :: "int option"
  similarityThresholdOpt :: "real option"
  sentenceWindowOpt :: "int option"

text \<open>\<open>{ ...DEFAULT_SEMANTIC_CONFIG, ...config }\<close>: nothing else is done to the configuration.\<close>

definition resolveSemanticConfig :: "PartialSemanticChunkConfig \<Rightarrow> SemanticChunkConfig" where
  "resolveSemanticConfig config =
     \<lparr>maxChunkSize = (case maxChunkSizeOpt config of Some v \<Rightarrow> v | None \<Rightarrow> maxChunkSize DEFAULT_SEMANTIC_CONFIG),
      minChunkSize = (case minChunkSizeOpt config of Some v \<Rightarrow> v | None \<Rightarrow> minChunkSize DEFAULT_SEMANTIC_CONFIG),
      similarityThreshold =
        (case similarityThresholdOpt config of Some v \<Rightarrow> v | None \<Rightarrow> similarityThreshold DEFAULT_SEMANTIC_CONFIG),
      sentenceWindow = (case sentenceWindowOpt config of Some v \<Rightarrow> v | None \<Rightarrow> sentenceWindow DEFAULT_SEMANTIC_CONFIG)\<rparr>"

text \<open>
  \<open>cosineSimilarity\<close>: throws on vectors of different lengths; the quotient is \<open>NaN\<close>
  when a norm is zero.
\<close>

definition cosineSimilarity :: "real list \<Rightarrow> real list \<Rightarrow> error + real option" where
  "cosineSimilarity a b =
     (if length a \<noteq> length b then Inl VectorLengthError
      else (let dotProduct = sum_list (map2 (*) a b);
                normA = sum_list (map (\<lambda>x. x * x) a);
                normB = sum_list (map (\<lambda>x. x * x) b)
            in Inr (if sqrt normA * sqrt normB = 0 then None
                    else Some (dotProduct / (sqrt normA * sqrt normB)))))"

text \<open>
  \<open>splitIntoSentences\<close>: the sentence detector is the external library \<open>compromise\<close>,
  a parameter \<open>nlp\<close> here (the array \<open>nlp(text).sentences().out("array")\<close>); blank
  sentences are dropped.
\<close>

definition splitIntoSentences :: "(jsstring \<Rightarrow> jsstring list) \<Rightarrow> jsstring \<Rightarrow> jsstring list" where
  "splitIntoSentences nlp text = filter (\<lambda>s. length (trim s) > 0) (nlp text)"

text \<open>
  The metadata literal \<open>{ chunkIndex, sentenceCount, avgSimilarity, ...additionalMetadata }\<close>;
  as in \<open>chunkText\<close>, the caller's keys come last.
\<close>

definition semanticMetadata :: "nat \<Rightarrow> nat \<Rightarrow> real option \<Rightarrow> jsobject \<Rightarrow> jsobject" where
  "semanticMetadata ci n avg additionalMetadata =
     [''chunkIndex'' \<mapsto> JNum (real ci),
      ''sentenceCount'' \<mapsto> JNum (real n),
      ''avgSimilarity'' \<mapsto> jsNumber avg] ++ additionalMetadata"

text \<open>The first error of a list of results, or all the values.\<close>

fun collect :: "(error + 'a) list \<Rightarrow> error + 'a list" where
  "collect [] = Inr []"
| "collect (Inl e # rs) = Inl e"
| "collect (Inr v # rs) = (case collect rs of Inl e \<Rightarrow> Inl e | Inr vs \<Rightarrow> Inr (v # vs))"

text \<open>
  The embedding loop (lines 366-376 of the file): batches of 20 sentences, each batch
  a \<open>Promise.all\<close> of one \<open>generateEmbedding\<close> call per sentence. The embedding provider
  is the parameter \<open>generateEmbedding\<close>. The second component is the list of the calls
  made to it: every sentence of a batch is sent before the batch can fail, and no
  batch is started after a failed one.
\<close>

fun embedBatches ::
    "(jsstring \<Rightarrow> error + real list) \<Rightarrow> jsstring list \<Rightarrow> (error + real list list) \<times> jsstring list" where
  "embedBatches generateEmbedding [] = (Inr [], [])"
| "embedBatches generateEmbedding (s # ss) =
     (let batch = take 20 (s # ss)
      in case collect (map generateEmbedding batch) of
           Inl e \<Rightarrow> (Inl e, batch)
         | Inr batchEmbeddings \<Rightarrow>
             (case embedBatches generateEmbedding (drop 20 (s # ss)) of
                (Inl e, calls) \<Rightarrow> (Inl e, batch @ calls)
              | (Inr embeddings, calls) \<Rightarrow> (Inr (batchEmbeddings @ embeddings), batch @ calls)))"

text \<open>
  The variables of the grouping loop (lines 379-383 of the file).
\<close>

record GroupState =
  semChunks :: "TextChunk list"
  currentChunk :: "jsstring list"
  currentSize :: int
  semChunkIndex :: nat
  similarities :: "real option list"

text \<open>
  The mean of a list of numbers as \<open>reduce((a, b) => a + b, 0) / length\<close> computes it:
  \<open>NaN\<close> for the empty list and when a summand is \<open>NaN\<close>.
\<close>

definition meanNumber :: "real option list \<Rightarrow> real option" where
  "meanNumber xs =
     (if xs = [] \<or> None \<in> set xs then None
      else Some (sum_list (map the xs) / real (length xs)))"

text \<open>The chunk made of the sentences collected so far (lines 411-425 and 441-455).\<close>

definition finalizeChunk :: "jsobject \<Rightarrow> GroupState \<Rightarrow> TextChunk" where
  "finalizeChunk additionalMetadata st =
     \<lparr>content = trim (join [32] (currentChunk st)),
      metadata =
        semanticMetadata (semChunkIndex st) (length (currentChunk st))
          (if length (similarities st) > 0 then meanNumber (similarities st) else Some 1)
          additionalMetadata\<rparr>"

text \<open>
  One iteration of the grouping loop, for the sentence of index \<open>i\<close> (lines 386-436).
  The current chunk holds the sentences just before \<open>i\<close>, so the indices read from
  \<open>embeddings\<close> are in range.
\<close>

definition groupStep ::
    "SemanticChunkConfig \<Rightarrow> jsobject \<Rightarrow> jsstring list \<Rightarrow> real list list \<Rightarrow> nat \<Rightarrow> GroupState
       \<Rightarrow> error + GroupState" where
  "groupStep cfg additionalMetadata sentences embeddings i st =
     (let sentence = sentences ! i;
          sentenceLength = int (length sentence);
          lookbackStart = max 0 (int (length (currentChunk st)) - sentenceWindow cfg);
          recentSentences = drop (nat lookbackStart) (currentChunk st);
          recentIndices =
            map (\<lambda>idx. nat (int i - int (length (currentChunk st)) + lookbackStart + int idx))
              [0 ..< length recentSentences]
      in case collect (map (\<lambda>idx. cosineSimilarity (embeddings ! i) (embeddings ! idx)) recentIndices) of
           Inl e \<Rightarrow> Inl e
         | Inr sims \<Rightarrow>
             (let avgSimilarity = meanNumber sims;
                  similarities' = similarities st @ [avgSimilarity];
                  wouldExceedMax = (currentSize st + sentenceLength > maxChunkSize cfg);
                  isSimilar = (case avgSimilarity of Some a \<Rightarrow> a \<ge> similarityThreshold cfg | None \<Rightarrow> False);
                  meetsMinSize = (currentSize st \<ge> minChunkSize cfg)
              in if wouldExceedMax \<or> (\<not> isSimilar \<and> meetsMinSize)
                 then Inr \<lparr>semChunks = semChunks st @ [finalizeChunk additionalMetadata (st\<lparr>similarities := similarities'\<rparr>)],
                           currentChunk = [sentence],
                           currentSize = sentenceLength,
                           semChunkIndex = semChunkIndex st + 1,
                           similarities = []\<rparr>
                 else Inr \<lparr>semChunks = semChunks st,
                           currentChunk = currentChunk st @ [sentence],
                           currentSize = currentSize st + sentenceLength,
                           semChunkIndex = semChunkIndex st,
                           similarities = similarities'\<rparr>))"

fun groupLoop ::
    "SemanticChunkConfig \<Rightarrow> jsobject \<Rightarrow> jsstring list \<Rightarrow> real list list \<Rightarrow> nat list \<Rightarrow> GroupState
       \<Rightarrow> error + GroupState" where
  "groupLoop cfg additionalMetadata sentences embeddings [] st = Inr st"
| "groupLoop cfg additionalMetadata sentences embeddings (i # rest) st =
     (case groupStep cfg additionalMetadata sentences embeddings i st of
        Inl e \<Rightarrow> Inl e
      | Inr st' \<Rightarrow> groupLoop cfg additionalMetadata sentences embeddings rest st')"

text \<open>
  \<open>semanticChunk\<close>. The result is the value the promise resolves to (\<open>Inr\<close>) or the error
  it rejects with (\<open>Inl\<close>), together with the calls made to the embedding provider.
\<close>

definition semanticChunk ::
    "(jsstring \<Rightarrow> jsstring list) \<Rightarrow> (jsstring \<Rightarrow> error + real list) \<Rightarrow>
     jsstring \<Rightarrow> PartialSemanticChunkConfig \<Rightarrow> jsobject \<Rightarrow> (error + TextChunk list) \<times> jsstring list" where
  "semanticChunk nlp generateEmbedding text config additionalMetadata =
     (let cfg = resolveSemanticConfig config
      in if text = [] \<or> length (trim text) = 0 then (Inr [], [])
         else (let sentences = splitIntoSentences nlp text
               in if length sentences = 0 then (Inr [], [])
                  else if int (length text) \<le> maxChunkSize cfg
                  then (Inr [\<lparr>content = trim text,
                              metadata = semanticMetadata 0 (length sentences) (Some 1) additionalMetadata\<rparr>],
                        [])
                  else (case embedBatches generateEmbedding sentences of
                          (Inl e, calls) \<Rightarrow> (Inl e, calls)
                        | (Inr embeddings, calls) \<Rightarrow>
                            (case groupLoop cfg additionalMetadata sentences embeddings
                                    [1 ..< length sentences]
                                    \<lparr>semChunks = [], currentChunk = [sentences ! 0],
                                     currentSize = int (length (sentences ! 0)),
                                     semChunkIndex = 0, similarities = []\<rparr> of
                               Inl e \<Rightarrow> (Inl e, calls)
                             | Inr st \<Rightarrow>
                                 (Inr (semChunks st @
                                        (if length (currentChunk st) > 0
                                         then [finalizeChunk additionalMetadata st] else [])),
                                  calls)))))"


section \<open>Hybrid ranker (src/lib/db/vector-search.ts)\<close>

definition RRF_K :: nat where
  "RRF_K = 60"

text \<open>A row of the \<open>Chunk\<close> table as the queries select it.\<close>

record SimilarChunk =
  id_sc :: string
  documentId :: string
  content_sc :: jsstring
  metadata_sc :: "jsobject option"
  similarity :: real

text \<open>
  A row of the lexical query, \<open>SimilarChunk & { rank: number }\<close>: the columns of a
  \<open>SimilarChunk\<close> and the column \<open>rank\<close>.
\<close>

record FtsChunk = SimilarChunk +
  rank_fc :: real

record RankedResult =
  id_rr :: string
  rank :: nat
  score :: real

text \<open>
  \<open>reciprocalRankFusion\<close>. The \<open>Map\<close> of the source keeps its keys in insertion order and
  \<open>set\<close> on a present key replaces the value in place: an association list with
  \<open>AList.update\<close>. \<open>rrfScores.get(id) || 0\<close> is \<open>scoreOf\<close>.
\<close>

definition scoreOf :: "(string \<times> real) list \<Rightarrow> string \<Rightarrow> real" where
  "scoreOf rrfScores i = (case map_of rrfScores i of Some v \<Rightarrow> v | None \<Rightarrow> 0)"

definition rrfItem :: "nat \<Rightarrow> (string \<times> real) list \<Rightarrow> RankedResult \<Rightarrow> (string \<times> real) list" where
  "rrfItem k rrfScores item =
     (let currentScore = scoreOf rrfScores (id_rr item);
          rrfScore = 1 / real (k + rank item)
      in AList.update (id_rr item) (currentScore + rrfScore) rrfScores)"

definition reciprocalRankFusion :: "RankedResult list list \<Rightarrow> nat \<Rightarrow> (string \<times> real) list" where
  "reciprocalRankFusion rankedLists k =
     foldl (\<lambda>rrfScores rankedList. foldl (rrfItem k) rrfScores rankedList) [] rankedLists"

text \<open>
  The two indexes are the database, reached through \<open>prisma.$queryRawUnsafe\<close>; a
  query is described by what the SQL text of the source is built from.
  \<^item> \<open>VectorQuery embedding minSimilarity scope limit\<close>: rows with an embedding, of
    similarity at least \<open>minSimilarity\<close>, of the documents \<open>scope\<close> when given, by
    ascending distance, at most \<open>limit\<close>.
  \<^item> \<open>ILikeQuery embedding keywords limit\<close>: rows with an embedding whose content
    matches \<open>content ILIKE '%k1%' OR content ILIKE '%k2%' OR ...\<close>, by descending
    similarity, at most \<open>limit\<close>.
  \<^item> \<open>TsQuery embedding tsQuery scope limit\<close>: rows with an embedding, of the documents
    \<open>scope\<close>, with \<open>content_fts @@ to_tsquery('english', tsQuery)\<close>, by descending
    \<open>ts_rank\<close>, at most \<open>limit\<close>.
\<close>

datatype dbQuery =
    VectorQuery "real list" real "string list option" nat
  | ILikeQuery "real list" "jsstring list" nat
  | TsQuery "real list" jsstring "string list" nat

text \<open>
  The database: the rows a query returns, read at the row type of the call
  (\<open>$queryRawUnsafe<SimilarChunk[]>\<close> for the vector query,
  \<open>$queryRawUnsafe<(SimilarChunk & { rank: number })[]>\<close> for the lexical one); a failed
  query rejects (\<open>Inl\<close>).
\<close>

record database =
  vectorRows :: "dbQuery \<Rightarrow> error + SimilarChunk list"
  ftsRows :: "dbQuery \<Rightarrow> error + FtsChunk list"

text \<open>Lines 124-128: the keywords of the unscoped search.\<close>

definition keywordsOf :: "jsstring \<Rightarrow> jsstring list" where
  "keywordsOf queryText =
     filter (\<lambda>word. length word > 2)
       (map stripNonWord
          (filter (\<lambda>word. length word > 2) (splitWhitespace queryText)))"

text \<open>Lines 243-248: the \<open>tsQuery\<close> string of the scoped search.\<close>

definition tsTokensOf :: "jsstring \<Rightarrow> jsstring list" where
  "tsTokensOf queryText =
     filter (\<lambda>word. length word > 0)
       (map stripNonWord
          (filter (\<lambda>word. length word > 0) (splitWhitespace queryText)))"

definition tsQueryOf :: "jsstring \<Rightarrow> jsstring" where
  "tsQueryOf queryText = join [32, 38, 32] (tsTokensOf queryText)"

text \<open>
  \<open>results.map((chunk, index) => ({ id: chunk.id, rank: index + 1, score: ... }))\<close>, the
  score being \<open>chunk.similarity\<close> for the semantic list and \<open>chunk.rank\<close> for the lexical
  one.
\<close>

definition toRanked :: "('a SimilarChunk_scheme \<Rightarrow> real) \<Rightarrow> 'a SimilarChunk_scheme list \<Rightarrow> RankedResult list" where
  "toRanked scoreField results =
     map (\<lambda>(index, chunk). \<lparr>id_rr = id_sc chunk, rank = index + 1, score = scoreField chunk\<rparr>)
       (zip [0 ..< length results] results)"

text \<open>
  \<open>chunkMap\<close> (lines 176-184), a \<open>Map<string, SimilarChunk>\<close>: every semantic row is set,
  a lexical row only under an identifier that is not present yet, and there as a
  \<open>SimilarChunk\<close>.
\<close>

definition chunkMapOf :: "SimilarChunk list \<Rightarrow> FtsChunk list \<Rightarrow> (string \<times> SimilarChunk) list" where
  "chunkMapOf semanticResults ftsResults =
     foldl (\<lambda>m chunk. if map_of m (id_sc chunk) \<noteq> None then m
                       else AList.update (id_sc chunk) (SimilarChunk.truncate chunk) m)
       (foldl (\<lambda>m chunk. AList.update (id_sc chunk) chunk m) [] semanticResults)
       ftsResults"

text \<open>
  Lines 158-205 (and, word for word, 273-317): rank both lists, fuse, and return the
  rows of the fused identifiers sorted by descending fused score. \<open>Array.prototype.sort\<close>
  is stable; the comparator is \<open>rrfB - rrfA\<close>.
\<close>

definition mergeResults :: "SimilarChunk list \<Rightarrow> FtsChunk list \<Rightarrow> nat \<Rightarrow> SimilarChunk list" where
  "mergeResults semanticResults ftsResults limit =
     (let semanticRanked = toRanked similarity semanticResults;
          ftsRanked = toRanked rank_fc ftsResults;
          rrfScores = reciprocalRankFusion [semanticRanked, ftsRanked] RRF_K;
          chunkMap = chunkMapOf semanticResults ftsResults;
          found = List.map_filter (\<lambda>(i, _). map_of chunkMap i) rrfScores
      in take limit (sort_key (\<lambda>chunk. - scoreOf rrfScores (id_sc chunk)) found))"

text \<open>
  \<open>hybridSearch\<close>: the result (or the error of the failed query), and the queries sent
  to the database, in order.
\<close>

definition hybridSearch ::
    "database \<Rightarrow> real list \<Rightarrow> jsstring \<Rightarrow> nat \<Rightarrow> real \<Rightarrow> (error + SimilarChunk list) \<times> dbQuery list" where
  "hybridSearch db queryEmbedding queryText limit minSimilarity =
     (let searchLimit = limit * 2;
          vectorQuery = VectorQuery queryEmbedding minSimilarity None searchLimit
      in case vectorRows db vectorQuery of
           Inl e \<Rightarrow> (Inl e, [vectorQuery])
         | Inr semanticResults \<Rightarrow>
             (let keywords = keywordsOf queryText
              in if length keywords = 0 then (Inr (take limit semanticResults), [vectorQuery])
                 else (let ftsQuery = ILikeQuery queryEmbedding keywords searchLimit
                       in case ftsRows db ftsQuery of
                            Inl e \<Rightarrow> (Inl e, [vectorQuery, ftsQuery])
                          | Inr ftsResults \<Rightarrow>
                              (Inr (mergeResults semanticResults ftsResults limit),
                               [vectorQuery, ftsQuery]))))"

definition hybridSearchInDocuments ::
    "database \<Rightarrow> real list \<Rightarrow> jsstring \<Rightarrow> string list \<Rightarrow> nat \<Rightarrow> real
       \<Rightarrow> (error + SimilarChunk list) \<times> dbQuery list" where
  "hybridSearchInDocuments db queryEmbedding queryText documentIds limit minSimilarity =
     (if length documentIds = 0 then hybridSearch db queryEmbedding queryText limit minSimilarity
      else (let searchLimit = limit * 2;
                vectorQuery = VectorQuery queryEmbedding minSimilarity (Some documentIds) searchLimit
            in case vectorRows db vectorQuery of
                 Inl e \<Rightarrow> (Inl e, [vectorQuery])
               | Inr semanticResults \<Rightarrow>
                   (let tsQuery = tsQueryOf queryText
                    in if tsQuery = [] then (Inr (take limit semanticResults), [vectorQuery])
                       else (let ftsQuery = TsQuery queryEmbedding tsQuery documentIds searchLimit
                             in case ftsRows db ftsQuery of
                                  Inl e \<Rightarrow> (Inl e, [vectorQuery, ftsQuery])
                                | Inr ftsResults \<Rightarrow>
                                    (Inr (mergeResults semanticResults ftsResults limit),
                                     [vectorQuery, ftsQuery])))))"

text \<open>
  The formula the documentation of \<open>reciprocalRankFusion\<close> gives, written from its
  words: the 1-based position of an identifier in a list, and the sum over the two
  stages of \<open>1 / (60 + rank)\<close>, a stage that does not hold the identifier contributing
  nothing.
\<close>

fun positionOf :: "string \<Rightarrow> string list \<Rightarrow> nat option" where
  "positionOf i [] = None"
| "positionOf i (j # js) =
     (if i = j then Some 1 else map_option Suc (positionOf i js))"

definition stageScore :: "'a SimilarChunk_scheme list \<Rightarrow> string \<Rightarrow> real" where
  "stageScore results i =
     (case positionOf i (map id_sc results) of None \<Rightarrow> 0 | Some r \<Rightarrow> 1 / (60 + real r))"

definition fusedScore ::
    "'a SimilarChunk_scheme list \<Rightarrow> 'b SimilarChunk_scheme list \<Rightarrow> string \<Rightarrow> real" where
  "fusedScore semanticResults ftsResults i = stageScore semanticResults i + stageScore ftsResults i"


section \<open>Reranker (src/lib/ai/rerank.ts)\<close>

record RerankedChunk = SimilarChunk +
  rerankScore :: real
  originalSimilarity :: real

text \<open>An entry of \<open>reranked.results\<close>.\<close>

record RerankResult =
  index :: int
  relevanceScore :: real

text \<open>
  What \<open>rerankChunks\<close> reaches outside itself: the dynamic import of the client library
  (which can reject), the environment variable \<open>COHERE_API_KEY\<close>, and the rerank
  service called with the key, the query, the documents and \<open>topN\<close>.
\<close>

record RerankEnv =
  cohereImport :: "error option"
  COHERE_API_KEY :: "jsstring option"
  cohereRerank :: "jsstring \<Rightarrow> jsstring \<Rightarrow> jsstring list \<Rightarrow> nat \<Rightarrow> error + RerankResult list"

text \<open>\<open>{ ...chunk, rerankScore: chunk.similarity, originalSimilarity: chunk.similarity }\<close>.\<close>

definition withOwnScore :: "SimilarChunk \<Rightarrow> RerankedChunk" where
  "withOwnScore chunk =
     \<lparr>id_sc = id_sc chunk, documentId = documentId chunk, content_sc = content_sc chunk,
      metadata_sc = metadata_sc chunk, similarity = similarity chunk,
      rerankScore = similarity chunk, originalSimilarity = similarity chunk\<rparr>"

text \<open>
  Lines 64-72: \<open>chunks[result.index]\<close> is \<open>undefined\<close> for an index that is not a position
  of the array, and reading \<open>.similarity\<close> of it throws a \<open>TypeError\<close>.
\<close>

definition fromRerankResult :: "SimilarChunk list \<Rightarrow> RerankResult \<Rightarrow> error + RerankedChunk" where
  "fromRerankResult inputChunks result =
     (if 0 \<le> index result \<and> index result < int (length inputChunks)
      then (let originalChunk = inputChunks ! nat (index result)
            in Inr \<lparr>id_sc = id_sc originalChunk, documentId = documentId originalChunk,
                    content_sc = content_sc originalChunk, metadata_sc = metadata_sc originalChunk,
                    similarity = relevanceScore result,
                    rerankScore = relevanceScore result,
                    originalSimilarity = similarity originalChunk\<rparr>)
      else Inl TypeError)"

text \<open>The body of the \<open>try\<close> block (lines 34-74): \<open>Inl\<close> is an exception thrown inside it.\<close>

definition rerankTry :: "RerankEnv \<Rightarrow> jsstring \<Rightarrow> SimilarChunk list \<Rightarrow> nat \<Rightarrow> error + RerankedChunk list" where
  "rerankTry env query inputChunks topN =
     (let documents = map content_sc inputChunks
      in case cohereImport env of
           Some e \<Rightarrow> Inl e
         | None \<Rightarrow>
             (case COHERE_API_KEY env of
                None \<Rightarrow> Inr (map withOwnScore (take topN inputChunks))
              | Some cohereApiKey \<Rightarrow>
                  if cohereApiKey = [] then Inr (map withOwnScore (take topN inputChunks))
                  else (case cohereRerank env cohereApiKey query documents topN of
                          Inl e \<Rightarrow> Inl e
                        | Inr results \<Rightarrow> collect (map (fromRerankResult inputChunks) results))))"

text \<open>
  \<open>rerankChunks\<close>: \<open>Inr\<close> is the value returned, \<open>Inl\<close> would be an exception leaving the
  function. The \<open>catch\<close> block turns every exception of the \<open>try\<close> block into the
  fallback.
\<close>

definition rerankChunks :: "RerankEnv \<Rightarrow> jsstring \<Rightarrow> SimilarChunk list \<Rightarrow> nat \<Rightarrow> error + RerankedChunk list" where
  "rerankChunks env query inputChunks topN =
     (if length inputChunks = 0 then Inr []
      else if length inputChunks \<le> topN then Inr (map withOwnScore inputChunks)
      else (case rerankTry env query inputChunks topN of
              Inr rerankedChunks \<Rightarrow> Inr rerankedChunks
            | Inl e \<Rightarrow> Inr (map withOwnScore (take topN inputChunks))))"


section \<open>Notions used to state the properties\<close>

text \<open>A result list is in descending order of the score \<open>s\<close> of its identifiers.\<close>

definition descendingByScore :: "(string \<Rightarrow> real) \<Rightarrow> SimilarChunk list \<Rightarrow> bool" where
  "descendingByScore s out = sorted_wrt (\<lambda>a b. s (id_sc a) \<ge> s (id_sc b)) out"

text \<open>What one entry of a ranked list adds to the fused score of the identifier \<open>i\<close>.\<close>

definition itemTerm :: "nat \<Rightarrow> string \<Rightarrow> RankedResult \<Rightarrow> real" where
  "itemTerm k i item = (if id_rr item = i then 1 / real (k + rank item) else 0)"

text \<open>The ranked list of a stage, with ranks counted from an offset.\<close>

definition rankedFrom ::
    "nat \<Rightarrow> ('a SimilarChunk_scheme \<Rightarrow> real) \<Rightarrow> 'a SimilarChunk_scheme list \<Rightarrow> RankedResult list" where
  "rankedFrom n scoreField results =
     map (\<lambda>(index, chunk). \<lparr>id_rr = id_sc chunk, rank = index + 1, score = scoreField chunk\<rparr>)
       (zip [n ..< n + length results] results)"


text \<open>
  A metadata value read as an integer: defined when the key holds an integral number.
\<close>

definition intField :: "TextChunk \<Rightarrow> string \<Rightarrow> int option" where
  "intField c k =
     (case metadata c k of
        Some (JNum r) \<Rightarrow> (if r = real_of_int \<lfloor>r\<rfloor> then Some \<lfloor>r\<rfloor> else None)
      | _ \<Rightarrow> None)"

text \<open>
  An emitted chunk is well formed for \<open>text\<close>: its content is not empty and is
  \<open>text.substring(startChar, endChar).trim()\<close> for the offsets in its metadata.
\<close>

definition chunkContentOk :: "jsstring \<Rightarrow> TextChunk \<Rightarrow> bool" where
  "chunkContentOk text c =
     (content c \<noteq> [] \<and>
      (case (intField c ''startChar'', intField c ''endChar'') of
         (Some s, Some e) \<Rightarrow> content c = trim (substring text s e)
       | _ \<Rightarrow> False))"

text \<open>
  A list of emitted chunks is well formed: each chunk is, and the \<open>chunkIndex\<close> values are
  \<open>0, 1, ..., n - 1\<close> in order.
\<close>

definition emittedOk :: "jsstring \<Rightarrow> TextChunk list \<Rightarrow> bool" where
  "emittedOk text cs =
     (list_all (chunkContentOk text) cs \<and>
      map (\<lambda>c. intField c ''chunkIndex'') cs = map (\<lambda>i. Some (int i)) [0 ..< length cs])"

text \<open>
  The \<open>startChar\<close> offsets of a list of chunks, and the statement that they increase
  strictly, the start index of the next window lying beyond the last of them.
\<close>

definition startChars :: "TextChunk list \<Rightarrow> int list" where
  "startChars cs = List.map_filter (\<lambda>c. intField c ''startChar'') cs"

definition startsIncrease :: "ChunkerState \<Rightarrow> bool" where
  "startsIncrease st =
     (length (startChars (chunks st)) = length (chunks st) \<and>
      sorted_wrt (<) (startChars (chunks st) @ [startIndex st]))"

text \<open>Example data for the closed instances below.\<close>

definition exampleChunk :: "string \<Rightarrow> real \<Rightarrow> SimilarChunk" where
  "exampleChunk i s =
     \<lparr>id_sc = i, documentId = ''d'', content_sc = utf16 ''text'', metadata_sc = None, similarity = s\<rparr>"

text \<open>The same row as a lexical query returns it, with \<open>1.0 as rank\<close>.\<close>

definition exampleFtsChunk :: "string \<Rightarrow> real \<Rightarrow> FtsChunk" where
  "exampleFtsChunk i s =
     \<lparr>id_sc = i, documentId = ''d'', content_sc = utf16 ''text'', metadata_sc = None, similarity = s,
      rank_fc = 1\<rparr>"

text \<open>
  A database that answers every vector query with the rows \<open>a, b\<close> and every lexical query
  with the rows \<open>b, c\<close>, and one that holds no row.
\<close>

definition exampleDb :: database where
  "exampleDb =
     \<lparr>vectorRows = (\<lambda>q. Inr [exampleChunk ''a'' (9 / 10), exampleChunk ''b'' (4 / 5)]),
      ftsRows = (\<lambda>q. Inr [exampleFtsChunk ''b'' (4 / 5), exampleFtsChunk ''c'' (1 / 10)])\<rparr>"

definition emptyDb :: database where
  "emptyDb = \<lparr>vectorRows = (\<lambda>q. Inr []), ftsRows = (\<lambda>q. Inr [])\<rparr>"


text \<open>The letter \<open>a\<close> followed by 200 spaces.\<close>

definition stallText :: jsstring where
  "stallText = 97 # replicate 200 32"

text \<open>\<open>chunkText(text)\<close> with no configuration argument, and one with a window of 10 and an overlap of 2.\<close>

definition defaultConfig :: PartialChunkConfig where
  "defaultConfig = \<lparr>chunkSizeOpt = None, chunkOverlapOpt = None, separatorsOpt = None\<rparr>"

definition smallConfig :: PartialChunkConfig where
  "smallConfig = \<lparr>chunkSizeOpt = Some 10, chunkOverlapOpt = Some 2, separatorsOpt = None\<rparr>"

text \<open>The state in which the loop of \<open>chunkText\<close> starts.\<close>

definition initialState :: ChunkerState where
  "initialState = \<lparr>chunks = [], startIndex = 0, chunkIndex = 0\<rparr>"

text \<open>
  A sentence detector that finds the whole text to be one sentence, and an embedding
  provider that answers every text with the vector \<open>[1]\<close>.
\<close>

definition wholeTextDetector :: "jsstring \<Rightarrow> jsstring list" where
  "wholeTextDetector text = [text]"

definition unitEmbedding :: "jsstring \<Rightarrow> error + real list" where
  "unitEmbedding s = Inr [1]"


text \<open>
  \<open>semanticChunk(text)\<close> with no configuration argument, and a configuration whose
  \<open>minChunkSize\<close> exceeds its \<open>maxChunkSize\<close>.
\<close>

definition defaultSemanticConfig :: PartialSemanticChunkConfig where
  "defaultSemanticConfig =
     \<lparr>maxChunkSizeOpt = None, minChunkSizeOpt = None, similarityThresholdOpt = None,
      sentenceWindowOpt = None\<rparr>"



section \<open>General lemmas\<close>

text \<open>Unfolding the string primitives evaluates them on literals.\<close>

lemmas str_ev = utf16_def trim_def isWhiteSpace_def isWordChar_def splitWhitespace_def stripNonWord_def

lemma upt_offset_Cons: "[n ..< n + Suc m] = n # [Suc n ..< Suc n + m]"
  using upt_conv_Cons [of n "n + Suc m"] by simp


section \<open>Properties of the fixed-window chunker\<close>

subsection \<open>The loop\<close>

lemma chunkLoop_continue:
  "startIndex st < int (length text) \<Longrightarrow>
   chunkLoop cfg text am st = chunkLoop cfg text am (chunkStep cfg text am st)"
  by (subst chunkLoop.simps) simp

lemma chunkLoop_stop:
  "\<not> startIndex st < int (length text) \<Longrightarrow> chunkLoop cfg text am st = Some (chunks st)"
  by (subst chunkLoop.simps) simp

text \<open>A state that the loop body maps to itself while the loop condition holds is never left.\<close>

lemma chunkLoop_stalls:
  assumes "startIndex st < int (length text)" and "chunkStep cfg text am st = st"
  shows "chunkLoop cfg text am st = None"
proof (rule ccontr)
  assume "chunkLoop cfg text am st \<noteq> None"
  then obtain y where y: "chunkLoop cfg text am st = Some y" by auto
  have "\<not> (cfg = cfg \<and> text = text \<and> am = am \<and> st = st)"
  proof (rule chunkLoop.raw_induct
      [where P = "\<lambda>c t a s y'. \<not> (c = cfg \<and> t = text \<and> a = am \<and> s = st)", OF _ y])
    fix f c t a s y'
    assume IH: "\<And>c t a s y'. f c t a s = Some y' \<Longrightarrow> \<not> (c = cfg \<and> t = text \<and> a = am \<and> s = st)"
      and step: "(if startIndex s < int (length t) then f c t a (chunkStep c t a s) else Some (chunks s)) = Some y'"
    show "\<not> (c = cfg \<and> t = text \<and> a = am \<and> s = st)"
    proof
      assume "c = cfg \<and> t = text \<and> a = am \<and> s = st"
      with step assms have "f cfg text am st = Some y'" by simp
      with IH show False by blast
    qed
  qed
  then show False by simp
qed

text \<open>What a returning call returns has been emitted after some number of iterations.\<close>

lemma chunkLoop_result_iterate:
  assumes "chunkLoop cfg text am st = Some cs"
  shows "\<exists>n. cs = chunks (chunkIterate n cfg text am st)"
proof (rule chunkLoop.raw_induct
    [where P = "\<lambda>c t a s y. \<exists>n. y = chunks (chunkIterate n c t a s)", OF _ assms])
  fix f c t a s y
  assume IH: "\<And>c t a s y. f c t a s = Some y \<Longrightarrow> \<exists>n. y = chunks (chunkIterate n c t a s)"
    and step: "(if startIndex s < int (length t) then f c t a (chunkStep c t a s) else Some (chunks s)) = Some y"
  show "\<exists>n. y = chunks (chunkIterate n c t a s)"
  proof (cases "startIndex s < int (length t)")
    case True
    with step have "f c t a (chunkStep c t a s) = Some y" by simp
    from IH [OF this] obtain n where "y = chunks (chunkIterate n c t a (chunkStep c t a s))" ..
    with True have "y = chunks (chunkIterate (Suc n) c t a s)" by simp
    then show ?thesis ..
  next
    case False
    with step have "y = chunks (chunkIterate 0 c t a s)" by simp
    then show ?thesis ..
  qed
qed

lemma trim_blank: "\<forall>c \<in> set s. isWhiteSpace c \<Longrightarrow> trim s = []"
proof -
  assume "\<forall>c \<in> set s. isWhiteSpace c"
  then have d: "dropWhile isWhiteSpace s = []"
    by simp
  show ?thesis unfolding trim_def d by simp
qed

lemma trim_nonempty_text: "length (trim text) > 0 \<Longrightarrow> text \<noteq> []"
  by (auto simp: trim_def)

lemma substring_whole: "substring text 0 (int (length text)) = text"
  by (simp add: substring_def)

lemma windowEnd_short:
  "int (length text) \<le> startIdx + chunkSize cfg \<Longrightarrow> windowEnd cfg text startIdx = int (length text)"
  by (simp add: windowEnd_def)

lemma chunkMetadata_startChar:
  "am ''startChar'' = None \<Longrightarrow> chunkMetadata ci s e am ''startChar'' = Some (JNum (real_of_int s))"
  by (simp add: chunkMetadata_def map_add_def)

lemma chunkMetadata_endChar:
  "am ''endChar'' = None \<Longrightarrow> chunkMetadata ci s e am ''endChar'' = Some (JNum (real_of_int e))"
  by (simp add: chunkMetadata_def map_add_def)

lemma chunkMetadata_chunkIndex:
  "am ''chunkIndex'' = None \<Longrightarrow> chunkMetadata ci s e am ''chunkIndex'' = Some (JNum (real ci))"
  by (simp add: chunkMetadata_def map_add_def)

lemma chunkMetadata_override:
  "am k = Some v \<Longrightarrow> chunkMetadata ci s e am k = Some v"
  by (simp add: chunkMetadata_def map_add_def)

subsection \<open>Texts shorter than the window\<close>

text \<open>A text shorter than the window, under a configuration that does not step back into it.\<close>

lemma short_text_one_chunk:
  assumes nonblank: "length (trim text) > 0"
    and short: "int (length text) < chunkSize (resolveChunkConfig config)"
    and overlap: "chunkOverlap (resolveChunkConfig config) \<le> 0 \<or>
        (int (length text) \<le> chunkOverlap (resolveChunkConfig config) \<and> am ''startChar'' = None)"
  shows "chunkText text config am
      = Some [\<lparr>content = trim text, metadata = chunkMetadata 0 0 (int (length text)) am\<rparr>]"
proof -
  let ?cfg = "resolveChunkConfig config"
  let ?c = "\<lparr>content = trim text, metadata = chunkMetadata 0 0 (int (length text)) am\<rparr>"
  let ?init = "\<lparr>chunks = [], startIndex = 0, chunkIndex = 0\<rparr>"
  from nonblank have ne: "text \<noteq> []" by (rule trim_nonempty_text)
  from short have w: "windowEnd ?cfg text 0 = int (length text)"
    by (simp add: windowEnd_short)
  have guard: "int (length text) - chunkOverlap ?cfg < int (length text) \<Longrightarrow>
      jsLessEq (int (length text) - chunkOverlap ?cfg) (chunkMetadata 0 0 (int (length text)) am ''startChar'')"
    using overlap ne by (auto simp: chunkMetadata_startChar)
  have step: "chunks (chunkStep ?cfg text am ?init) = [?c] \<and>
      \<not> startIndex (chunkStep ?cfg text am ?init) < int (length text)"
    using nonblank guard by (auto simp: chunkStep_def w substring_whole Let_def)
  from ne have "startIndex ?init < int (length text)" by simp
  then have "chunkLoop ?cfg text am ?init = chunkLoop ?cfg text am (chunkStep ?cfg text am ?init)"
    by (rule chunkLoop_continue)
  also have "\<dots> = Some [?c]"
    using step by (simp add: chunkLoop_stop)
  finally show ?thesis
    using ne nonblank by (simp add: chunkText_def)
qed

text \<open>
  With a window of 10 and an overlap of 2 the text \<open>"abcde"\<close> yields two chunks: the
  second window \<open>[3, 5)\<close> lies inside the first.
\<close>

lemma example_two_chunks:
  "chunkText (utf16 ''abcde'') smallConfig Map.empty
     = Some [\<lparr>content = utf16 ''abcde'', metadata = chunkMetadata 0 0 5 Map.empty\<rparr>,
             \<lparr>content = utf16 ''de'', metadata = chunkMetadata 1 3 5 Map.empty\<rparr>]"
proof -
  let ?cfg = "resolveChunkConfig smallConfig"
  let ?text = "utf16 ''abcde''"
  let ?c1 = "\<lparr>content = utf16 ''abcde'', metadata = chunkMetadata 0 0 5 Map.empty\<rparr>"
  let ?c2 = "\<lparr>content = utf16 ''de'', metadata = chunkMetadata 1 3 5 Map.empty\<rparr>"
  have cfg: "chunkSize ?cfg = 10" "chunkOverlap ?cfg = 2"
    by (simp_all add: resolveChunkConfig_def smallConfig_def)
  have len: "int (length ?text) = 5"
    by (simp add: utf16_def)
  have w: "windowEnd ?cfg ?text 0 = 5" "windowEnd ?cfg ?text 3 = 5"
    by (simp_all add: windowEnd_short cfg len)
  have s1: "chunkStep ?cfg ?text Map.empty \<lparr>chunks = [], startIndex = 0, chunkIndex = 0\<rparr>
      = \<lparr>chunks = [?c1], startIndex = 3, chunkIndex = 1\<rparr>"
    by (simp add: chunkStep_def w cfg Let_def chunkMetadata_startChar)
       (simp add: substring_def str_ev)
  have s2: "chunkStep ?cfg ?text Map.empty \<lparr>chunks = [?c1], startIndex = 3, chunkIndex = 1\<rparr>
      = \<lparr>chunks = [?c1, ?c2], startIndex = 5, chunkIndex = 2\<rparr>"
    by (simp add: chunkStep_def w cfg Let_def chunkMetadata_startChar)
       (simp add: substring_def str_ev)
  have "chunkLoop ?cfg ?text Map.empty \<lparr>chunks = [], startIndex = 0, chunkIndex = 0\<rparr>
      = chunkLoop ?cfg ?text Map.empty
          (chunkStep ?cfg ?text Map.empty \<lparr>chunks = [], startIndex = 0, chunkIndex = 0\<rparr>)"
    by (rule chunkLoop_continue) (simp add: len)
  also have "\<dots> = chunkLoop ?cfg ?text Map.empty
          (chunkStep ?cfg ?text Map.empty \<lparr>chunks = [?c1], startIndex = 3, chunkIndex = 1\<rparr>)"
    unfolding s1 by (rule chunkLoop_continue) (simp add: len)
  also have "\<dots> = Some [?c1, ?c2]"
    unfolding s2 by (subst chunkLoop_stop) (simp_all add: len)
  finally have "chunkLoop ?cfg ?text Map.empty \<lparr>chunks = [], startIndex = 0, chunkIndex = 0\<rparr>
      = Some [?c1, ?c2]" .
  moreover have "?text \<noteq> []" "length (trim ?text) \<noteq> 0"
    by (simp_all add: str_ev)
  ultimately show ?thesis
    by (simp add: chunkText_def)
qed

text \<open>
  The claim C3 as stated (every non-blank text shorter than \<open>chunkSize\<close> yields exactly one
  chunk) fails at this input.
\<close>

theorem short_text_counterexample:
  "length (trim (utf16 ''abcde'')) > 0 \<and>
   int (length (utf16 ''abcde'')) < chunkSize (resolveChunkConfig smallConfig) \<and>
   chunkText (utf16 ''abcde'') smallConfig Map.empty
     = Some [\<lparr>content = utf16 ''abcde'', metadata = chunkMetadata 0 0 5 Map.empty\<rparr>,
             \<lparr>content = utf16 ''de'', metadata = chunkMetadata 1 3 5 Map.empty\<rparr>]"
  using example_two_chunks
  by (simp add: resolveChunkConfig_def smallConfig_def str_ev)

text \<open>
  Claim C3, as amended. An empty or blank text yields the empty sequence. For a text
  with non-white-space content that is shorter than \<open>chunkSize\<close>, \<open>chunkText\<close> returns
  exactly one chunk, whose content is the trimmed text, provided the next window does
  not start inside the text again:
  \<open>chunkOverlap \<le> 0\<close>, or the text is at most \<open>chunkOverlap\<close> long and the caller's
  metadata has no \<open>startChar\<close> key (the guard of the loop reads that key of the last
  chunk).
\<close>

theorem short_text_single_chunk:
  "(length (trim text) = 0 \<longrightarrow> chunkText text config additionalMetadata = Some []) \<and>
   (length (trim text) > 0 \<and>
    int (length text) < chunkSize (resolveChunkConfig config) \<and>
    (chunkOverlap (resolveChunkConfig config) \<le> 0 \<or>
     (int (length text) \<le> chunkOverlap (resolveChunkConfig config) \<and>
      additionalMetadata ''startChar'' = None))
    \<longrightarrow> chunkText text config additionalMetadata
          = Some [\<lparr>content = trim text,
                    metadata = chunkMetadata 0 0 (int (length text)) additionalMetadata\<rparr>])"
proof (intro conjI impI)
  assume "length (trim text) = 0"
  then show "chunkText text config additionalMetadata = Some []"
    by (simp add: chunkText_def)
next
  assume "length (trim text) > 0 \<and>
    int (length text) < chunkSize (resolveChunkConfig config) \<and>
    (chunkOverlap (resolveChunkConfig config) \<le> 0 \<or>
     (int (length text) \<le> chunkOverlap (resolveChunkConfig config) \<and>
      additionalMetadata ''startChar'' = None))"
  then show "chunkText text config additionalMetadata
      = Some [\<lparr>content = trim text,
                metadata = chunkMetadata 0 0 (int (length text)) additionalMetadata\<rparr>]"
    by (intro short_text_one_chunk) simp_all
qed

theorem short_text_single_chunk_witness:
  "length (trim (utf16 ''   '')) = 0 \<and>
   chunkText (utf16 ''   '') defaultConfig Map.empty = Some [] \<and>
   length (trim (utf16 '' abc '')) > 0 \<and>
   int (length (utf16 '' abc '')) < chunkSize (resolveChunkConfig defaultConfig) \<and>
   int (length (utf16 '' abc '')) \<le> chunkOverlap (resolveChunkConfig defaultConfig) \<and>
   chunkText (utf16 '' abc '') defaultConfig Map.empty
     = Some [\<lparr>content = utf16 ''abc'', metadata = chunkMetadata 0 0 5 Map.empty\<rparr>]"
  using short_text_single_chunk [of "utf16 ''   ''" defaultConfig Map.empty]
    short_text_single_chunk [of "utf16 '' abc ''" defaultConfig Map.empty]
  by (simp add: resolveChunkConfig_def defaultConfig_def DEFAULT_CHUNK_CONFIG_def str_ev)

subsection \<open>Progress of the loop\<close>

lemma isWhiteSpace_32: "isWhiteSpace 32"
  by (simp add: isWhiteSpace_def)

lemma not_isWhiteSpace_97: "\<not> isWhiteSpace 97"
  by (simp add: isWhiteSpace_def)

lemma trim_stallText: "trim stallText = [97]"
proof -
  have "dropWhile isWhiteSpace (replicate 200 32 @ [97]) = dropWhile isWhiteSpace [97]"
    by (rule dropWhile_append2) (simp add: isWhiteSpace_32)
  then show ?thesis
    by (simp add: trim_def stallText_def not_isWhiteSpace_97)
qed

lemma default_fields:
  "chunkSize DEFAULT_CHUNK_CONFIG = 1000" "chunkOverlap DEFAULT_CHUNK_CONFIG = 200"
  by (simp_all add: DEFAULT_CHUNK_CONFIG_def)

lemma stall_first:
  "chunkStep DEFAULT_CHUNK_CONFIG stallText Map.empty initialState
     = \<lparr>chunks = [\<lparr>content = [97], metadata = chunkMetadata 0 0 201 Map.empty\<rparr>],
        startIndex = 1, chunkIndex = 1\<rparr>"
proof -
  have w: "windowEnd DEFAULT_CHUNK_CONFIG stallText 0 = 201"
    by (simp add: windowEnd_def DEFAULT_CHUNK_CONFIG_def stallText_def)
  have s: "substring stallText 0 201 = stallText"
    by (simp add: substring_def stallText_def)
  show ?thesis
    by (simp add: chunkStep_def initialState_def w s trim_stallText Let_def chunkMetadata_def default_fields)
qed

lemma stall_second:
  "chunkStep DEFAULT_CHUNK_CONFIG stallText Map.empty
     \<lparr>chunks = [\<lparr>content = [97], metadata = chunkMetadata 0 0 201 Map.empty\<rparr>],
      startIndex = 1, chunkIndex = 1\<rparr>
   = \<lparr>chunks = [\<lparr>content = [97], metadata = chunkMetadata 0 0 201 Map.empty\<rparr>],
      startIndex = 1, chunkIndex = 1\<rparr>"
proof -
  have w: "windowEnd DEFAULT_CHUNK_CONFIG stallText 1 = 201"
    by (simp add: windowEnd_def DEFAULT_CHUNK_CONFIG_def stallText_def)
  have s: "substring stallText 1 201 = replicate 200 32"
    by (simp add: substring_def stallText_def)
  have t: "trim (replicate 200 32) = []"
    by (rule trim_blank) (simp add: isWhiteSpace_32)
  show ?thesis
    by (simp add: chunkStep_def w s t Let_def chunkMetadata_def default_fields)
qed

text \<open>
  Claim C7, evaluated at the text \<open>a\<close> followed by 200 spaces under the default
  configuration (\<open>chunkSize\<close> 1000, \<open>chunkOverlap\<close> 200). The first iteration emits the
  chunk of the window \<open>[0, 201)\<close> and sets \<open>startIndex\<close> to 1. The window \<open>[1, 201)\<close> is
  blank: the second iteration emits nothing and sets \<open>startIndex\<close> to \<open>201 - 200 = 1\<close>
  again, and the guard, which compares with \<open>startChar = 0\<close> of the last emitted chunk,
  does not fire. The start index does not advance, and \<open>chunkText\<close> never returns.
\<close>

theorem chunkText_stalls:
  "length (trim stallText) > 0 \<and>
   chunkSize (resolveChunkConfig defaultConfig) \<ge> 1 \<and>
   startIndex (chunkIterate 1 (resolveChunkConfig defaultConfig) stallText Map.empty initialState) = 1 \<and>
   startIndex (chunkIterate 2 (resolveChunkConfig defaultConfig) stallText Map.empty initialState) = 1 \<and>
   int (length stallText) = 201 \<and>
   chunkText stallText defaultConfig Map.empty = None"
proof -
  have r: "resolveChunkConfig defaultConfig = DEFAULT_CHUNK_CONFIG"
    by (simp add: resolveChunkConfig_def defaultConfig_def DEFAULT_CHUNK_CONFIG_def)
  have len: "int (length stallText) = 201"
    by (simp add: stallText_def)
  note t = trim_stallText
  have i0: "startIndex initialState < int (length stallText)"
    by (simp add: initialState_def len)
  have it1: "chunkIterate 1 DEFAULT_CHUNK_CONFIG stallText Map.empty initialState
      = \<lparr>chunks = [\<lparr>content = [97], metadata = chunkMetadata 0 0 201 Map.empty\<rparr>],
         startIndex = 1, chunkIndex = 1\<rparr>"
    using i0 by (simp add: stall_first)
  have it2: "chunkIterate 2 DEFAULT_CHUNK_CONFIG stallText Map.empty initialState
      = \<lparr>chunks = [\<lparr>content = [97], metadata = chunkMetadata 0 0 201 Map.empty\<rparr>],
         startIndex = 1, chunkIndex = 1\<rparr>"
    using i0 stall_second by (simp add: numeral_2_eq_2 stall_first len)
  have "chunkLoop DEFAULT_CHUNK_CONFIG stallText Map.empty
      \<lparr>chunks = [\<lparr>content = [97], metadata = chunkMetadata 0 0 201 Map.empty\<rparr>],
       startIndex = 1, chunkIndex = 1\<rparr> = None"
  proof (rule chunkLoop_stalls)
    show "startIndex \<lparr>chunks = [\<lparr>content = [97], metadata = chunkMetadata 0 0 201 Map.empty\<rparr>],
       startIndex = 1, chunkIndex = 1\<rparr> < int (length stallText)"
      by (simp add: len)
  qed (rule stall_second)
  then have "chunkLoop DEFAULT_CHUNK_CONFIG stallText Map.empty initialState = None"
    using chunkLoop_continue [OF i0, of DEFAULT_CHUNK_CONFIG Map.empty] by (simp add: stall_first)
  moreover have "stallText \<noteq> []"
    by (simp add: stallText_def)
  ultimately have "chunkText stallText defaultConfig Map.empty = None"
    by (simp add: chunkText_def r t initialState_def)
  with r len t it1 it2 show ?thesis
    by (simp add: DEFAULT_CHUNK_CONFIG_def)
qed

lemma intField_of_int: "metadata c k = Some (JNum (real_of_int i)) \<Longrightarrow> intField c k = Some i"
  by (simp add: intField_def)

lemma intField_of_nat: "metadata c k = Some (JNum (real n)) \<Longrightarrow> intField c k = Some (int n)"
  using intField_of_int [of c k "int n"] by simp

text \<open>
  What does hold of the progress of the loop: with a window of at least one character
  (and no \<open>startChar\<close> key in the caller's metadata) every window ends beyond its start,
  the \<open>startChar\<close> offsets of the emitted chunks increase strictly, and after every
  iteration the start index lies beyond the \<open>startChar\<close> of the last emitted chunk.
\<close>

lemma findSplitPoint_beyond:
  "1 \<le> cs \<Longrightarrow> findSplitPoint cs s sub seps = - 1 \<or> s < findSplitPoint cs s sub seps"
  by (induction cs s sub seps rule: findSplitPoint.induct) (auto simp: Let_def)

lemma windowEnd_beyond:
  assumes "1 \<le> chunkSize cfg" and "s < int (length text)"
  shows "s < windowEnd cfg text s"
  using assms findSplitPoint_beyond [OF assms(1), of s "substring text s (min (s + chunkSize cfg) (int (length text)))" "separators cfg"]
  by (auto simp: windowEnd_def Let_def)

lemma startChars_snoc:
  "intField c ''startChar'' = Some s \<Longrightarrow> startChars (cs @ [c]) = startChars cs @ [s]"
  by (simp add: startChars_def List.map_filter_def)

lemma last_startChars:
  "length (startChars cs) = length cs \<Longrightarrow> cs \<noteq> [] \<Longrightarrow>
   intField (last cs) ''startChar'' = Some (last (startChars cs))"
proof (induction cs rule: rev_induct)
  case Nil
  then show ?case by simp
next
  case (snoc c cs)
  have le: "length (startChars cs) \<le> length cs"
    by (simp add: startChars_def List.map_filter_def)
  show ?case
  proof (cases "intField c ''startChar''")
    case None
    then have "startChars (cs @ [c]) = startChars cs"
      by (simp add: startChars_def List.map_filter_def)
    with snoc.prems(1) le show ?thesis by simp
  next
    case (Some s)
    then show ?thesis by (simp add: startChars_snoc)
  qed
qed

lemma jsLessEq_intField:
  "intField c k = Some s \<Longrightarrow> jsLessEq n (metadata c k) \<longleftrightarrow> n \<le> s"
  by (auto simp: intField_def split: option.splits jsvalue.splits if_splits)

lemma startsIncrease_step:
  assumes key: "am ''startChar'' = None"
    and size: "1 \<le> chunkSize cfg"
    and cond: "startIndex st < int (length text)"
    and inv: "startsIncrease st"
  shows "startsIncrease (chunkStep cfg text am st)"
proof -
  let ?e = "windowEnd cfg text (startIndex st)"
  let ?content = "trim (substring text (startIndex st) ?e)"
  let ?c = "\<lparr>content = ?content, metadata = chunkMetadata (chunkIndex st) (startIndex st) ?e am\<rparr>"
  let ?s' = "?e - chunkOverlap cfg"
  from size cond have e: "startIndex st < ?e" by (rule windowEnd_beyond)
  from inv have len: "length (startChars (chunks st)) = length (chunks st)"
    and sorted: "sorted_wrt (<) (startChars (chunks st) @ [startIndex st])"
    by (simp_all add: startsIncrease_def)
  have c: "intField ?c ''startChar'' = Some (startIndex st)"
    using key by (simp add: intField_of_int chunkMetadata_startChar)
  show ?thesis
  proof (cases "length ?content > 0")
    case True
    then have ch: "chunks (chunkStep cfg text am st) = chunks st @ [?c]"
      by (simp add: chunkStep_def Let_def)
    from True have si: "startIndex (chunkStep cfg text am st)
        = (if jsLessEq ?s' (metadata ?c ''startChar'') then ?e else ?s')"
      by (simp add: chunkStep_def Let_def)
    have "jsLessEq ?s' (metadata ?c ''startChar'') \<longleftrightarrow> ?s' \<le> startIndex st"
      by (rule jsLessEq_intField [OF c])
    with e have "startIndex st < startIndex (chunkStep cfg text am st)"
      by (simp add: si)
    with sorted have "sorted_wrt (<) ((startChars (chunks st) @ [startIndex st])
        @ [startIndex (chunkStep cfg text am st)])"
      by (auto simp: sorted_wrt_append)
    with len c show ?thesis
      by (simp add: startsIncrease_def ch startChars_snoc)
  next
    case False
    then have ch: "chunks (chunkStep cfg text am st) = chunks st"
      by (simp add: chunkStep_def Let_def)
    show ?thesis
    proof (cases "chunks st = []")
      case True
      with ch len show ?thesis
        by (simp add: startsIncrease_def startChars_def List.map_filter_simps)
    next
      case ne: False
      let ?l = "last (startChars (chunks st))"
      from last_startChars [OF len ne]
      have l: "intField (last (chunks st)) ''startChar'' = Some ?l" .
      from False ne have si: "startIndex (chunkStep cfg text am st)
          = (if jsLessEq ?s' (metadata (last (chunks st)) ''startChar'') then ?e else ?s')"
        by (simp add: chunkStep_def Let_def)
      from ne len have sne: "startChars (chunks st) \<noteq> []" by auto
      then have bl: "startChars (chunks st) = butlast (startChars (chunks st)) @ [?l]"
        by simp
      from sorted have "?l < startIndex st"
        using sne by (auto simp: sorted_wrt_append)
      moreover have "jsLessEq ?s' (metadata (last (chunks st)) ''startChar'') \<longleftrightarrow> ?s' \<le> ?l"
        by (rule jsLessEq_intField [OF l])
      ultimately have "?l < startIndex (chunkStep cfg text am st)"
        using e by (simp add: si)
      moreover from sorted have "sorted_wrt (<) (startChars (chunks st))"
        by (simp add: sorted_wrt_append)
      ultimately have "sorted_wrt (<) (startChars (chunks st) @ [startIndex (chunkStep cfg text am st)])"
        by (subst bl, subst (asm) bl) (auto simp: sorted_wrt_append)
      with len show ?thesis
        by (simp add: startsIncrease_def ch)
    qed
  qed
qed

lemma startsIncrease_iterate:
  assumes key: "am ''startChar'' = None" and size: "1 \<le> chunkSize cfg"
  shows "startsIncrease st \<Longrightarrow> startsIncrease (chunkIterate n cfg text am st)"
proof (induction n arbitrary: st)
  case 0
  then show ?case by simp
next
  case (Suc n)
  show ?case
  proof (cases "startIndex st < int (length text)")
    case True
    from startsIncrease_step [where am = am, OF key size True Suc.prems]
    have "startsIncrease (chunkIterate n cfg text am (chunkStep cfg text am st))"
      by (rule Suc.IH)
    with True show ?thesis by simp
  next
    case False
    with Suc.prems show ?thesis by simp
  qed
qed

lemma emitted_starts_increase:
  assumes "am ''startChar'' = None" and "1 \<le> chunkSize (resolveChunkConfig config)"
  shows "startsIncrease (chunkIterate n (resolveChunkConfig config) text am
           \<lparr>chunks = [], startIndex = 0, chunkIndex = 0\<rparr>)"
  by (rule startsIncrease_iterate [where am = am, OF assms])
     (simp add: startsIncrease_def startChars_def List.map_filter_simps)

subsection \<open>The emitted chunks\<close>

lemma emittedOk_step:
  assumes keys: "am ''chunkIndex'' = None" "am ''startChar'' = None" "am ''endChar'' = None"
    and inv: "emittedOk text (chunks st)" "chunkIndex st = length (chunks st)"
  shows "emittedOk text (chunks (chunkStep cfg text am st)) \<and>
         chunkIndex (chunkStep cfg text am st) = length (chunks (chunkStep cfg text am st))"
proof (cases "length (trim (substring text (startIndex st) (windowEnd cfg text (startIndex st)))) > 0")
  case False
  then have "chunks (chunkStep cfg text am st) = chunks st"
      "chunkIndex (chunkStep cfg text am st) = chunkIndex st"
    by (simp_all add: chunkStep_def Let_def)
  with inv show ?thesis by simp
next
  case True
  let ?e = "windowEnd cfg text (startIndex st)"
  let ?c = "\<lparr>content = trim (substring text (startIndex st) ?e),
             metadata = chunkMetadata (chunkIndex st) (startIndex st) ?e am\<rparr>"
  from True have c: "chunks (chunkStep cfg text am st) = chunks st @ [?c]"
      "chunkIndex (chunkStep cfg text am st) = chunkIndex st + 1"
    by (simp_all add: chunkStep_def Let_def)
  have ok: "chunkContentOk text ?c"
    using True keys
    by (simp add: chunkContentOk_def intField_of_int chunkMetadata_startChar chunkMetadata_endChar)
  have idx: "intField ?c ''chunkIndex'' = Some (int (length (chunks st)))"
    using keys inv(2) by (simp add: intField_of_nat chunkMetadata_chunkIndex)
  from inv(1) ok idx show ?thesis
    unfolding c emittedOk_def by (simp add: inv(2))
qed

lemma emittedOk_iterate:
  assumes keys: "am ''chunkIndex'' = None" "am ''startChar'' = None" "am ''endChar'' = None"
  shows "emittedOk text (chunks st) \<Longrightarrow> chunkIndex st = length (chunks st) \<Longrightarrow>
    emittedOk text (chunks (chunkIterate n cfg text am st)) \<and>
    chunkIndex (chunkIterate n cfg text am st) = length (chunks (chunkIterate n cfg text am st))"
proof (induction n arbitrary: st)
  case 0
  then show ?case by simp
next
  case (Suc n)
  show ?case
  proof (cases "startIndex st < int (length text)")
    case True
    from emittedOk_step [OF keys Suc.prems, of cfg]
    have "emittedOk text (chunks (chunkIterate n cfg text am (chunkStep cfg text am st))) \<and>
      chunkIndex (chunkIterate n cfg text am (chunkStep cfg text am st))
        = length (chunks (chunkIterate n cfg text am (chunkStep cfg text am st)))"
      by (intro Suc.IH) simp_all
    with True show ?thesis by simp
  next
    case False
    with Suc.prems show ?thesis by simp
  qed
qed

text \<open>
  The claim C10 as stated fails when the caller's metadata has a \<open>chunkIndex\<close> key: the
  spread overrides the chunker's value.
\<close>

theorem chunk_index_counterexample:
  "chunkSize (resolveChunkConfig defaultConfig) \<ge> 1 \<and>
   chunkText (utf16 ''abc'') defaultConfig [''chunkIndex'' \<mapsto> JNum 7]
     = Some [\<lparr>content = utf16 ''abc'',
               metadata = chunkMetadata 0 0 3 [''chunkIndex'' \<mapsto> JNum 7]\<rparr>] \<and>
   chunkMetadata 0 0 3 [''chunkIndex'' \<mapsto> JNum 7] ''chunkIndex'' = Some (JNum 7)"
  using short_text_one_chunk [of "utf16 ''abc''" defaultConfig "[''chunkIndex'' \<mapsto> JNum 7]"]
  by (simp add: resolveChunkConfig_def defaultConfig_def DEFAULT_CHUNK_CONFIG_def str_ev
      chunkMetadata_override)

text \<open>
  Claim C10, as amended. When the caller's metadata has none of the keys \<open>chunkIndex\<close>,
  \<open>startChar\<close> and \<open>endChar\<close>, the chunks emitted after any number of iterations of the
  loop, and the chunks returned when \<open>chunkText\<close> returns, are well formed: each has a
  non-empty content equal to \<open>text.substring(startChar, endChar).trim()\<close>, and their
  \<open>chunkIndex\<close> values are \<open>0, 1, ..., n - 1\<close> in emission order (a window that trims to
  the empty string is skipped and takes no index).
\<close>

theorem emitted_chunks_wellformed:
  assumes "additionalMetadata ''chunkIndex'' = None"
    and "additionalMetadata ''startChar'' = None"
    and "additionalMetadata ''endChar'' = None"
  shows "emittedOk text
           (chunks (chunkIterate n (resolveChunkConfig config) text additionalMetadata
                      \<lparr>chunks = [], startIndex = 0, chunkIndex = 0\<rparr>)) \<and>
         (chunkText text config additionalMetadata = Some cs \<longrightarrow> emittedOk text cs)"
proof -
  let ?init = "\<lparr>chunks = [], startIndex = 0, chunkIndex = 0\<rparr>"
  have init: "emittedOk text (chunks ?init)" "chunkIndex ?init = length (chunks ?init)"
    by (simp_all add: emittedOk_def)
  have it: "emittedOk text (chunks (chunkIterate k (resolveChunkConfig config) text additionalMetadata ?init))" for k
    using emittedOk_iterate [OF assms init] by blast
  have "emittedOk text cs" if "chunkText text config additionalMetadata = Some cs"
  proof (cases "text = [] \<or> length (trim text) = 0")
    case True
    with that have "cs = []" by (auto simp: chunkText_def)
    then show ?thesis by (simp add: emittedOk_def)
  next
    case False
    with that have "chunkLoop (resolveChunkConfig config) text additionalMetadata ?init = Some cs"
      by (simp add: chunkText_def)
    from chunkLoop_result_iterate [OF this] it show ?thesis by auto
  qed
  with it show ?thesis by blast
qed

theorem emitted_chunks_wellformed_witness:
  "emittedOk (utf16 ''abcde'')
     (chunks (chunkIterate 1 (resolveChunkConfig smallConfig) (utf16 ''abcde'') Map.empty
                \<lparr>chunks = [], startIndex = 0, chunkIndex = 0\<rparr>)) \<and>
   chunkText (utf16 ''abcde'') smallConfig Map.empty
     = Some [\<lparr>content = utf16 ''abcde'', metadata = chunkMetadata 0 0 5 Map.empty\<rparr>,
             \<lparr>content = utf16 ''de'', metadata = chunkMetadata 1 3 5 Map.empty\<rparr>] \<and>
   emittedOk (utf16 ''abcde'')
     [\<lparr>content = utf16 ''abcde'', metadata = chunkMetadata 0 0 5 Map.empty\<rparr>,
      \<lparr>content = utf16 ''de'', metadata = chunkMetadata 1 3 5 Map.empty\<rparr>]"
  using emitted_chunks_wellformed [of Map.empty "utf16 ''abcde''" 1 smallConfig
      "[\<lparr>content = utf16 ''abcde'', metadata = chunkMetadata 0 0 5 Map.empty\<rparr>,
        \<lparr>content = utf16 ''de'', metadata = chunkMetadata 1 3 5 Map.empty\<rparr>]"]
    example_two_chunks
  by simp


section \<open>Properties of the semantic chunker\<close>

subsection \<open>The short circuit\<close>

lemma semanticMetadata_avg:
  "am ''avgSimilarity'' = None \<Longrightarrow>
   semanticMetadata ci n avg am ''avgSimilarity'' = Some (jsNumber avg)"
  by (simp add: semanticMetadata_def map_add_def)

lemma semanticMetadata_override:
  "am k = Some v \<Longrightarrow> semanticMetadata ci n avg am k = Some v"
  by (simp add: semanticMetadata_def map_add_def)

lemma semanticChunk_short:
  assumes "length (trim text) > 0"
    and "splitIntoSentences nlp text \<noteq> []"
    and "int (length text) \<le> maxChunkSize (resolveSemanticConfig config)"
  shows "semanticChunk nlp generateEmbedding text config am
      = (Inr [\<lparr>content = trim text,
               metadata = semanticMetadata 0 (length (splitIntoSentences nlp text)) (Some 1) am\<rparr>], [])"
proof -
  from assms(1) have "text \<noteq> []" by (rule trim_nonempty_text)
  with assms show ?thesis
    by (simp add: semanticChunk_def Let_def)
qed

text \<open>
  The claim C6 as stated fails when the caller's metadata has an \<open>avgSimilarity\<close> key.
\<close>

theorem semantic_short_circuit_counterexample:
  "length (trim (utf16 ''Hi.'')) > 0 \<and>
   length (splitIntoSentences wholeTextDetector (utf16 ''Hi.'')) = 1 \<and>
   int (length (utf16 ''Hi.'')) \<le> maxChunkSize (resolveSemanticConfig defaultSemanticConfig) \<and>
   semanticChunk wholeTextDetector unitEmbedding (utf16 ''Hi.'') defaultSemanticConfig
       [''avgSimilarity'' \<mapsto> JNum 0]
     = (Inr [\<lparr>content = utf16 ''Hi.'',
              metadata = semanticMetadata 0 1 (Some 1) [''avgSimilarity'' \<mapsto> JNum 0]\<rparr>], []) \<and>
   semanticMetadata 0 1 (Some 1) [''avgSimilarity'' \<mapsto> JNum 0] ''avgSimilarity'' = Some (JNum 0)"
  using semanticChunk_short [of "utf16 ''Hi.''" wholeTextDetector defaultSemanticConfig unitEmbedding
      "[''avgSimilarity'' \<mapsto> JNum 0]"]
  by (simp add: splitIntoSentences_def wholeTextDetector_def resolveSemanticConfig_def
      defaultSemanticConfig_def DEFAULT_SEMANTIC_CONFIG_def str_ev semanticMetadata_override)

text \<open>
  Claim C6, as amended. For a text with non-white-space content in which a sentence is
  detected and whose length is at most \<open>maxChunkSize\<close>, \<open>semanticChunk\<close> returns exactly
  one chunk, with the trimmed text as content and the metadata \<open>chunkIndex = 0\<close>,
  \<open>sentenceCount\<close>, \<open>avgSimilarity = 1\<close> overlaid with the caller's metadata, and makes no
  call to the embedding provider; \<open>avgSimilarity\<close> is 1 when the caller's metadata has no
  key of that name.
\<close>

theorem semantic_short_circuit:
  assumes "length (trim text) > 0"
    and "splitIntoSentences nlp text \<noteq> []"
    and "int (length text) \<le> maxChunkSize (resolveSemanticConfig config)"
  shows "semanticChunk nlp generateEmbedding text config additionalMetadata
      = (Inr [\<lparr>content = trim text,
               metadata = semanticMetadata 0 (length (splitIntoSentences nlp text)) (Some 1)
                            additionalMetadata\<rparr>], []) \<and>
    (additionalMetadata ''avgSimilarity'' = None \<longrightarrow>
       semanticMetadata 0 (length (splitIntoSentences nlp text)) (Some 1) additionalMetadata
         ''avgSimilarity'' = Some (JNum 1))"
  using assms by (simp add: semanticChunk_short semanticMetadata_avg)

theorem semantic_short_circuit_witness:
  "length (trim (utf16 ''Hi.'')) > 0 \<and>
   semanticChunk wholeTextDetector unitEmbedding (utf16 ''Hi.'') defaultSemanticConfig Map.empty
     = (Inr [\<lparr>content = utf16 ''Hi.'', metadata = semanticMetadata 0 1 (Some 1) Map.empty\<rparr>], []) \<and>
   semanticMetadata 0 1 (Some 1) Map.empty ''avgSimilarity'' = Some (JNum 1)"
  using semantic_short_circuit [of "utf16 ''Hi.''" wholeTextDetector defaultSemanticConfig unitEmbedding
      Map.empty]
  by (simp add: splitIntoSentences_def wholeTextDetector_def resolveSemanticConfig_def
      defaultSemanticConfig_def DEFAULT_SEMANTIC_CONFIG_def str_ev)

subsection \<open>No validation of the configuration\<close>

















section \<open>Properties of the hybrid ranker\<close>

lemma scoreOf_Nil: "scoreOf [] i = 0"
  by (simp add: scoreOf_def)

lemma scoreOf_rrfItem:
  "scoreOf (rrfItem k S item) i = scoreOf S i + itemTerm k i item"
  by (simp add: rrfItem_def scoreOf_def itemTerm_def update_conv' Let_def)

lemma scoreOf_foldl_rrfItem:
  "scoreOf (foldl (rrfItem k) S items) i = scoreOf S i + sum_list (map (itemTerm k i) items)"
  by (induction items arbitrary: S) (simp_all add: scoreOf_rrfItem)

lemma keys_rrfItem: "fst ` set (rrfItem k S item) = insert (id_rr item) (fst ` set S)"
  by (simp add: rrfItem_def Let_def dom_update)

lemma keys_foldl_rrfItem:
  "fst ` set (foldl (rrfItem k) S items) = fst ` set S \<union> id_rr ` set items"
  by (induction items arbitrary: S) (auto simp: keys_rrfItem)

lemma distinct_rrfItem: "distinct (map fst S) \<Longrightarrow> distinct (map fst (rrfItem k S item))"
  by (simp add: rrfItem_def Let_def distinct_update)

lemma distinct_foldl_rrfItem:
  "distinct (map fst S) \<Longrightarrow> distinct (map fst (foldl (rrfItem k) S items))"
  by (induction items arbitrary: S) (simp_all add: distinct_rrfItem)

lemma rrf_two_lists:
  "reciprocalRankFusion [xs, ys] k = foldl (rrfItem k) (foldl (rrfItem k) [] xs) ys"
  by (simp add: reciprocalRankFusion_def)

lemma scoreOf_rrf:
  "scoreOf (reciprocalRankFusion [xs, ys] k) i
     = sum_list (map (itemTerm k i) xs) + sum_list (map (itemTerm k i) ys)"
  by (simp add: rrf_two_lists scoreOf_foldl_rrfItem scoreOf_Nil)

lemma keys_rrf:
  "fst ` set (reciprocalRankFusion [xs, ys] k) = id_rr ` set xs \<union> id_rr ` set ys"
  by (simp add: rrf_two_lists keys_foldl_rrfItem)

lemma distinct_rrf: "distinct (map fst (reciprocalRankFusion [xs, ys] k))"
  by (simp add: rrf_two_lists distinct_foldl_rrfItem)

lemma map_of_rrf:
  "map_of (reciprocalRankFusion [xs, ys] k) i
     = (if i \<in> id_rr ` set xs \<union> id_rr ` set ys
        then Some (scoreOf (reciprocalRankFusion [xs, ys] k) i) else None)"
proof (cases "map_of (reciprocalRankFusion [xs, ys] k) i")
  case None
  then have "i \<notin> fst ` set (reciprocalRankFusion [xs, ys] k)"
    by (simp add: map_of_eq_None_iff)
  with None show ?thesis by (simp add: keys_rrf)
next
  case (Some v)
  then have "i \<in> fst ` set (reciprocalRankFusion [xs, ys] k)"
    by (metis map_of_eq_None_iff option.distinct(1))
  with Some show ?thesis by (simp add: keys_rrf scoreOf_def)
qed

lemma toRanked_rankedFrom: "toRanked f results = rankedFrom 0 f results"
  by (simp add: toRanked_def rankedFrom_def)

lemma rankedFrom_Nil: "rankedFrom n f [] = []"
  by (simp add: rankedFrom_def)

lemma rankedFrom_Cons:
  "rankedFrom n f (c # cs)
     = \<lparr>id_rr = id_sc c, rank = n + 1, score = f c\<rparr> # rankedFrom (Suc n) f cs"
proof -
  have "[n ..< n + length (c # cs)] = n # [Suc n ..< Suc n + length cs]"
    using upt_offset_Cons [of n "length cs"] by simp
  then show ?thesis
    unfolding rankedFrom_def by simp
qed

lemma ids_rankedFrom: "id_rr ` set (rankedFrom n f results) = id_sc ` set results"
  by (induction results arbitrary: n) (simp_all add: rankedFrom_Nil rankedFrom_Cons)

lemma ids_toRanked: "id_rr ` set (toRanked f results) = id_sc ` set results"
  by (simp add: toRanked_rankedFrom ids_rankedFrom)

lemma positionOf_None: "positionOf i js = None \<longleftrightarrow> i \<notin> set js"
  by (induction js) auto

lemma sum_rankedFrom:
  "distinct (map id_sc results) \<Longrightarrow>
   sum_list (map (itemTerm k i) (rankedFrom n f results))
   = (case positionOf i (map id_sc results) of None \<Rightarrow> 0 | Some r \<Rightarrow> 1 / real (k + n + r))"
proof (induction results arbitrary: n)
  case Nil
  show ?case by (simp add: rankedFrom_Nil)
next
  case (Cons c cs)
  from Cons.prems have d: "distinct (map id_sc cs)" and notin: "id_sc c \<notin> set (map id_sc cs)"
    by simp_all
  note IH = Cons.IH [OF d, of "Suc n"]
  show ?case
  proof (cases "id_sc c = i")
    case True
    with notin have "positionOf i (map id_sc cs) = None"
      by (simp add: positionOf_None)
    with IH True show ?thesis
      by (simp add: rankedFrom_Cons itemTerm_def)
  next
    case False
    with IH show ?thesis
      by (simp add: rankedFrom_Cons itemTerm_def split: option.splits)
  qed
qed

lemma sum_toRanked:
  "distinct (map id_sc results) \<Longrightarrow>
   sum_list (map (itemTerm RRF_K i) (toRanked f results)) = stageScore results i"
  using sum_rankedFrom [of results RRF_K i 0 f]
  by (simp add: toRanked_rankedFrom stageScore_def RRF_K_def split: option.splits)

lemma scoreOf_fused:
  "distinct (map id_sc sem) \<Longrightarrow> distinct (map id_sc fts) \<Longrightarrow>
   scoreOf (reciprocalRankFusion [toRanked f sem, toRanked g fts] RRF_K) i = fusedScore sem fts i"
  by (simp add: scoreOf_rrf sum_toRanked fusedScore_def)

text \<open>
  Claim C2. For two stage lists without repeated identifiers, the fused score that
  \<open>reciprocalRankFusion\<close> stores for an identifier is the sum, over the stages that hold
  it, of \<open>1 / (60 + rank)\<close> with \<open>rank\<close> its 1-based position in the stage
  (\<open>fusedScore\<close>), and identifiers of neither stage have no entry; an identifier that is
  first in both stages has the score \<open>2 / 61\<close>.
\<close>

theorem rrf_score_formula:
  assumes "distinct (map id_sc sem)" and "distinct (map id_sc fts)"
  shows "map_of (reciprocalRankFusion [toRanked similarity sem, toRanked rank_fc fts] RRF_K) i
           = (if i \<in> id_sc ` set sem \<union> id_sc ` set fts then Some (fusedScore sem fts i) else None)
         \<and> (sem \<noteq> [] \<and> fts \<noteq> [] \<and> id_sc (hd sem) = i \<and> id_sc (hd fts) = i
              \<longrightarrow> map_of (reciprocalRankFusion [toRanked similarity sem, toRanked rank_fc fts] RRF_K) i = Some (2 / 61))"
proof -
  have m: "map_of (reciprocalRankFusion [toRanked similarity sem, toRanked rank_fc fts] RRF_K) i
           = (if i \<in> id_sc ` set sem \<union> id_sc ` set fts then Some (fusedScore sem fts i) else None)"
    using assms by (simp add: map_of_rrf ids_toRanked scoreOf_fused)
  have "fusedScore sem fts i = 2 / 61"
    if "sem \<noteq> []" "fts \<noteq> []" "id_sc (hd sem) = i" "id_sc (hd fts) = i"
  proof -
    from that obtain a as b bs where "sem = a # as" "fts = b # bs" "id_sc a = i" "id_sc b = i"
      by (cases sem; cases fts) auto
    then show ?thesis
      by (simp add: fusedScore_def stageScore_def)
  qed
  moreover have "i \<in> id_sc ` set sem" if "sem \<noteq> []" "id_sc (hd sem) = i"
    using that by (cases sem) auto
  ultimately show ?thesis using m by auto
qed

theorem rrf_score_formula_witness:
  "distinct (map id_sc [exampleChunk ''a'' (9 / 10), exampleChunk ''b'' (4 / 5)]) \<and>
   distinct (map id_sc [exampleFtsChunk ''a'' (9 / 10), exampleFtsChunk ''c'' (1 / 10)]) \<and>
   map_of (reciprocalRankFusion
        [toRanked similarity [exampleChunk ''a'' (9 / 10), exampleChunk ''b'' (4 / 5)],
         toRanked rank_fc [exampleFtsChunk ''a'' (9 / 10), exampleFtsChunk ''c'' (1 / 10)]] RRF_K) ''a''
     = Some (2 / 61)"
proof -
  have d1: "distinct (map id_sc [exampleChunk ''a'' (9 / 10), exampleChunk ''b'' (4 / 5)])"
    by (simp add: exampleChunk_def)
  have d2: "distinct (map id_sc [exampleFtsChunk ''a'' (9 / 10), exampleFtsChunk ''c'' (1 / 10)])"
    by (simp add: exampleFtsChunk_def)
  from rrf_score_formula [OF d1 d2, of "''a''", THEN conjunct2] d1 d2
  show ?thesis by (simp add: exampleChunk_def exampleFtsChunk_def)
qed

lemma id_sc_truncate: "id_sc (SimilarChunk.truncate chunk) = id_sc chunk"
  by (simp add: SimilarChunk.truncate_def)

lemma chunkMap_semantic_ids:
  "(\<And>i c. map_of m i = Some c \<Longrightarrow> id_sc c = i) \<Longrightarrow>
   map_of (foldl (\<lambda>m chunk. AList.update (id_sc chunk) chunk m) m cs) i = Some c \<Longrightarrow> id_sc c = i"
proof (induction cs arbitrary: m)
  case Nil
  then show ?case by simp
next
  case (Cons x xs)
  show ?case
  proof (rule Cons.IH [of "AList.update (id_sc x) x m"])
    fix j d
    assume "map_of (AList.update (id_sc x) x m) j = Some d"
    then show "id_sc d = j"
      using Cons.prems(1) [of j d] by (auto simp: update_conv' split: if_splits)
  next
    show "map_of (foldl (\<lambda>m chunk. AList.update (id_sc chunk) chunk m) (AList.update (id_sc x) x m) xs) i = Some c"
      using Cons.prems(2) by simp
  qed
qed

lemma chunkMap_lexical_ids:
  "(\<And>i c. map_of m i = Some c \<Longrightarrow> id_sc c = i) \<Longrightarrow>
   map_of (foldl (\<lambda>m chunk. if map_of m (id_sc chunk) \<noteq> None then m
                               else AList.update (id_sc chunk) (SimilarChunk.truncate chunk) m) m cs) i = Some c
   \<Longrightarrow> id_sc c = i"
proof (induction cs arbitrary: m)
  case Nil
  then show ?case by simp
next
  case (Cons x xs)
  let ?m' = "if map_of m (id_sc x) \<noteq> None then m
             else AList.update (id_sc x) (SimilarChunk.truncate x) m"
  show ?case
  proof (rule Cons.IH [of ?m'])
    fix j d
    assume "map_of ?m' j = Some d"
    then show "id_sc d = j"
      using Cons.prems(1) [of j d] by (auto simp: update_conv' id_sc_truncate split: if_splits)
  next
    show "map_of (foldl (\<lambda>m chunk. if map_of m (id_sc chunk) \<noteq> None then m
                               else AList.update (id_sc chunk) (SimilarChunk.truncate chunk) m) ?m' xs) i = Some c"
      using Cons.prems(2) by simp
  qed
qed

lemma chunkMapOf_ids: "map_of (chunkMapOf sem fts) i = Some c \<Longrightarrow> id_sc c = i"
  unfolding chunkMapOf_def
  by (erule chunkMap_lexical_ids [rotated], erule chunkMap_semantic_ids [rotated]) simp

lemma ids_map_filter:
  assumes "\<And>i v c. g i = Some c \<Longrightarrow> id_sc c = i"
  shows "map id_sc (List.map_filter (\<lambda>(i, v). g i) xs) = map fst (filter (\<lambda>(i, v). g i \<noteq> None) xs)"
proof (induction xs)
  case Nil
  show ?case by (simp add: List.map_filter_simps)
next
  case (Cons x xs)
  obtain i v where x: "x = (i, v)" by (cases x)
  show ?case
    using Cons assms [of i] by (cases "g i") (auto simp: x List.map_filter_simps)
qed

lemma distinct_ids_sort_key:
  "distinct (map id_sc (sort_key f xs)) \<longleftrightarrow> distinct (map id_sc xs)"
  by (simp add: distinct_map)

lemma descending_sort_key:
  "descendingByScore s (sort_key (\<lambda>chunk. - s (id_sc chunk)) xs)"
proof -
  have "sorted (map (\<lambda>chunk. - s (id_sc chunk)) (sort_key (\<lambda>chunk. - s (id_sc chunk)) xs))"
    by (rule sorted_sort_key)
  then show ?thesis
    by (simp add: descendingByScore_def sorted_map)
qed

lemma descending_take: "descendingByScore s xs \<Longrightarrow> descendingByScore s (take n xs)"
  unfolding descendingByScore_def by (rule sorted_wrt_take)

lemma mergeResults_contract:
  "length (mergeResults sem fts limit) \<le> limit \<and>
   distinct (map id_sc (mergeResults sem fts limit)) \<and>
   descendingByScore (scoreOf (reciprocalRankFusion [toRanked similarity sem, toRanked rank_fc fts] RRF_K))
     (mergeResults sem fts limit)"
proof -
  let ?rrf = "reciprocalRankFusion [toRanked similarity sem, toRanked rank_fc fts] RRF_K"
  let ?found = "List.map_filter (\<lambda>(i, _). map_of (chunkMapOf sem fts) i) ?rrf"
  have m: "mergeResults sem fts limit
      = take limit (sort_key (\<lambda>chunk. - scoreOf ?rrf (id_sc chunk)) ?found)"
    by (simp add: mergeResults_def Let_def)
  have "map id_sc ?found = map fst (filter (\<lambda>(i, v). map_of (chunkMapOf sem fts) i \<noteq> None) ?rrf)"
    by (rule ids_map_filter) (rule chunkMapOf_ids)
  then have "distinct (map id_sc ?found)"
    by (simp add: distinct_rrf distinct_map_filter)
  then have "distinct (map id_sc (sort_key (\<lambda>chunk. - scoreOf ?rrf (id_sc chunk)) ?found))"
    by (simp only: distinct_ids_sort_key)
  then have d: "distinct (map id_sc (mergeResults sem fts limit))"
    unfolding m take_map [symmetric] by (rule distinct_take)
  have s: "descendingByScore (scoreOf ?rrf) (mergeResults sem fts limit)"
    unfolding m by (rule descending_take) (rule descending_sort_key)
  have "length (mergeResults sem fts limit) \<le> limit"
    unfolding m by simp
  with d s show ?thesis by simp
qed

lemma positionOf_nth:
  "distinct js \<Longrightarrow> j < length js \<Longrightarrow> positionOf (js ! j) js = Some (Suc j)"
proof (induction js arbitrary: j)
  case Nil
  then show ?case by simp
next
  case (Cons a as)
  show ?case
  proof (cases j)
    case 0
    then show ?thesis by simp
  next
    case (Suc k)
    with Cons.prems have "k < length as" "as ! k \<noteq> a" "distinct as"
      by auto
    with Cons.IH [of k] Suc show ?thesis by simp
  qed
qed

lemma stageScore_nth:
  "distinct (map id_sc sem) \<Longrightarrow> j < length sem \<Longrightarrow>
   stageScore sem (id_sc (sem ! j)) = 1 / (61 + real j)"
  using positionOf_nth [of "map id_sc sem" j]
  by (simp add: stageScore_def add.commute)

lemma stageScore_Nil: "stageScore [] i = 0"
  by (simp add: stageScore_def)

lemma vector_order_descending:
  assumes "distinct (map id_sc sem)"
  shows "descendingByScore (scoreOf (reciprocalRankFusion [toRanked similarity sem, toRanked rank_fc ([] :: FtsChunk list)] RRF_K)) sem"
proof -
  have "scoreOf (reciprocalRankFusion [toRanked similarity sem, toRanked rank_fc ([] :: FtsChunk list)] RRF_K) i = stageScore sem i" for i
    using assms by (simp add: scoreOf_fused fusedScore_def stageScore_Nil)
  moreover have "stageScore sem (id_sc (sem ! j)) \<le> stageScore sem (id_sc (sem ! i))"
    if "i < j" "j < length sem" for i j
    using that assms by (simp add: stageScore_nth frac_le)
  ultimately show ?thesis
    by (simp add: descendingByScore_def sorted_wrt_iff_nth_less)
qed

text \<open>
  Claim C1. Whenever the database answers the queries of a hybrid search (the vector
  stage with rows of distinct identifiers, as rows of a table keyed by \<open>id\<close> are), the
  search returns a list of at most \<open>limit\<close> rows, no identifier occurs twice in it, and
  it is in descending order of the fused score computed from the two stage lists (the
  lexical list being empty when no lexical query is made). This holds for
  \<open>hybridSearch\<close> and for \<open>hybridSearchInDocuments\<close> with a document list; with the empty
  document list \<open>hybridSearchInDocuments\<close> is \<open>hybridSearch\<close>.
\<close>

theorem hybrid_search_contract:
  assumes "distinct (map id_sc sem)"
  shows
   "(vectorRows db (VectorQuery e m None (limit * 2)) = Inr sem \<and>
     (keywordsOf queryText \<noteq> [] \<longrightarrow> ftsRows db (ILikeQuery e (keywordsOf queryText) (limit * 2)) = Inr fts)
     \<longrightarrow> (\<exists>out queries.
            hybridSearch db e queryText limit m = (Inr out, queries) \<and>
            length out \<le> limit \<and> distinct (map id_sc out) \<and>
            descendingByScore
              (scoreOf (reciprocalRankFusion
                 [toRanked similarity sem, toRanked rank_fc (if keywordsOf queryText = [] then [] else fts)] RRF_K)) out))
    \<and>
    (documentIds \<noteq> [] \<and> vectorRows db (VectorQuery e m (Some documentIds) (limit * 2)) = Inr sem \<and>
     (tsQueryOf queryText \<noteq> [] \<longrightarrow>
        ftsRows db (TsQuery e (tsQueryOf queryText) documentIds (limit * 2)) = Inr fts)
     \<longrightarrow> (\<exists>out queries.
            hybridSearchInDocuments db e queryText documentIds limit m = (Inr out, queries) \<and>
            length out \<le> limit \<and> distinct (map id_sc out) \<and>
            descendingByScore
              (scoreOf (reciprocalRankFusion
                 [toRanked similarity sem, toRanked rank_fc (if tsQueryOf queryText = [] then [] else fts)] RRF_K)) out))
    \<and>
    (documentIds = []
     \<longrightarrow> hybridSearchInDocuments db e queryText documentIds limit m
           = hybridSearch db e queryText limit m)"
proof -
  have short: "length (take limit sem) \<le> limit \<and> distinct (map id_sc (take limit sem)) \<and>
      descendingByScore (scoreOf (reciprocalRankFusion [toRanked similarity sem, toRanked rank_fc ([] :: FtsChunk list)] RRF_K)) (take limit sem)"
  proof -
    have "distinct (map id_sc (take limit sem))"
      unfolding take_map [symmetric] using assms by (rule distinct_take)
    moreover have "descendingByScore (scoreOf (reciprocalRankFusion [toRanked similarity sem, toRanked rank_fc ([] :: FtsChunk list)] RRF_K))
        (take limit sem)"
      using assms by (intro descending_take vector_order_descending)
    ultimately show ?thesis by simp
  qed
  show ?thesis
  proof (intro conjI impI)
    assume h: "vectorRows db (VectorQuery e m None (limit * 2)) = Inr sem \<and>
       (keywordsOf queryText \<noteq> [] \<longrightarrow> ftsRows db (ILikeQuery e (keywordsOf queryText) (limit * 2)) = Inr fts)"
    show "\<exists>out queries.
            hybridSearch db e queryText limit m = (Inr out, queries) \<and>
            length out \<le> limit \<and> distinct (map id_sc out) \<and>
            descendingByScore
              (scoreOf (reciprocalRankFusion
                 [toRanked similarity sem, toRanked rank_fc (if keywordsOf queryText = [] then [] else fts)] RRF_K)) out"
    proof (cases "keywordsOf queryText = []")
      case True
      with h have "hybridSearch db e queryText limit m
          = (Inr (take limit sem), [VectorQuery e m None (limit * 2)])"
        by (simp add: hybridSearch_def Let_def)
      with True short show ?thesis by simp
    next
      case False
      with h have "hybridSearch db e queryText limit m
          = (Inr (mergeResults sem fts limit),
             [VectorQuery e m None (limit * 2), ILikeQuery e (keywordsOf queryText) (limit * 2)])"
        by (simp add: hybridSearch_def Let_def)
      with False mergeResults_contract [of sem fts limit] show ?thesis by simp
    qed
  next
    assume h: "documentIds \<noteq> [] \<and> vectorRows db (VectorQuery e m (Some documentIds) (limit * 2)) = Inr sem \<and>
       (tsQueryOf queryText \<noteq> [] \<longrightarrow>
          ftsRows db (TsQuery e (tsQueryOf queryText) documentIds (limit * 2)) = Inr fts)"
    show "\<exists>out queries.
            hybridSearchInDocuments db e queryText documentIds limit m = (Inr out, queries) \<and>
            length out \<le> limit \<and> distinct (map id_sc out) \<and>
            descendingByScore
              (scoreOf (reciprocalRankFusion
                 [toRanked similarity sem, toRanked rank_fc (if tsQueryOf queryText = [] then [] else fts)] RRF_K)) out"
    proof (cases "tsQueryOf queryText = []")
      case True
      with h have "hybridSearchInDocuments db e queryText documentIds limit m
          = (Inr (take limit sem), [VectorQuery e m (Some documentIds) (limit * 2)])"
        by (simp add: hybridSearchInDocuments_def Let_def)
      with True short show ?thesis by simp
    next
      case False
      with h have "hybridSearchInDocuments db e queryText documentIds limit m
          = (Inr (mergeResults sem fts limit),
             [VectorQuery e m (Some documentIds) (limit * 2),
              TsQuery e (tsQueryOf queryText) documentIds (limit * 2)])"
        by (simp add: hybridSearchInDocuments_def Let_def)
      with False mergeResults_contract [of sem fts limit] show ?thesis by simp
    qed
  next
    assume "documentIds = []"
    then show "hybridSearchInDocuments db e queryText documentIds limit m
        = hybridSearch db e queryText limit m"
      by (simp add: hybridSearchInDocuments_def)
  qed
qed

theorem hybrid_search_contract_witness:
  "distinct (map id_sc [exampleChunk ''a'' (9 / 10), exampleChunk ''b'' (4 / 5)]) \<and>
   (\<exists>out queries.
      hybridSearch exampleDb [] (utf16 ''vector search'') 2 (1 / 5) = (Inr out, queries) \<and>
      length out \<le> 2 \<and> distinct (map id_sc out) \<and>
      descendingByScore
        (scoreOf (reciprocalRankFusion
           [toRanked similarity [exampleChunk ''a'' (9 / 10), exampleChunk ''b'' (4 / 5)],
            toRanked rank_fc [exampleFtsChunk ''b'' (4 / 5), exampleFtsChunk ''c'' (1 / 10)]] RRF_K)) out) \<and>
   (\<exists>out queries.
      hybridSearchInDocuments exampleDb [] (utf16 ''vector search'') [''d''] 2 (1 / 5)
        = (Inr out, queries) \<and>
      length out \<le> 2 \<and> distinct (map id_sc out) \<and>
      descendingByScore
        (scoreOf (reciprocalRankFusion
           [toRanked similarity [exampleChunk ''a'' (9 / 10), exampleChunk ''b'' (4 / 5)],
            toRanked rank_fc [exampleFtsChunk ''b'' (4 / 5), exampleFtsChunk ''c'' (1 / 10)]] RRF_K)) out) \<and>
   hybridSearchInDocuments exampleDb [] (utf16 ''vector search'') [] 2 (1 / 5)
     = hybridSearch exampleDb [] (utf16 ''vector search'') 2 (1 / 5)"
  using hybrid_search_contract [where sem = "[exampleChunk ''a'' (9 / 10), exampleChunk ''b'' (4 / 5)]"
      and fts = "[exampleFtsChunk ''b'' (4 / 5), exampleFtsChunk ''c'' (1 / 10)]"
      and db = exampleDb and e = "[]" and m = "1 / 5" and limit = 2
      and queryText = "utf16 ''vector search''" and documentIds = "[''d'']"]
    hybrid_search_contract [where sem = "[exampleChunk ''a'' (9 / 10), exampleChunk ''b'' (4 / 5)]"
      and fts = "[exampleFtsChunk ''b'' (4 / 5), exampleFtsChunk ''c'' (1 / 10)]"
      and db = exampleDb and e = "[]" and m = "1 / 5" and limit = 2
      and queryText = "utf16 ''vector search''" and documentIds = "[]"]
  by (simp add: exampleDb_def exampleChunk_def exampleFtsChunk_def keywordsOf_def tsQueryOf_def
      tsTokensOf_def str_ev)

text \<open>The keyword list of \<open>hybridSearch\<close> is what the specification describes.\<close>

lemma join_empty_iff:
  "\<forall>p \<in> set ps. p \<noteq> [] \<Longrightarrow> join sep ps = [] \<longleftrightarrow> ps = []"
  by (induction sep ps rule: join.induct) auto

lemma tsQueryOf_empty_iff: "tsQueryOf queryText = [] \<longleftrightarrow> tsTokensOf queryText = []"
  unfolding tsQueryOf_def
  by (rule join_empty_iff) (auto simp: tsTokensOf_def)

lemma keywordsOf_spec:
  "keywordsOf queryText =
     filter (\<lambda>word. length word > 2) (map stripNonWord (splitWhitespace queryText))"
proof -
  have "filter (\<lambda>word. length word > 2) (map stripNonWord (filter (\<lambda>word. length word > 2) ws))
      = filter (\<lambda>word. length word > 2) (map stripNonWord ws)" for ws
  proof (induction ws)
    case Nil
    show ?case by simp
  next
    case (Cons w ws)
    have "length (stripNonWord w) \<le> length w"
      by (simp add: stripNonWord_def)
    with Cons show ?case by auto
  qed
  then show ?thesis by (simp add: keywordsOf_def)
qed

text \<open>
  Claim C5, evaluated at the query \<open>"an AI model"\<close>. \<open>hybridSearch\<close> sends the keyword list
  \<open>["model"]\<close> (tokens of at most two characters dropped) in an \<open>ILIKE ... OR ...\<close>
  query. \<open>hybridSearchInDocuments\<close> keeps the two-character tokens and sends
  \<open>to_tsquery('english', 'an & AI & model')\<close>, a conjunction, against the column
  \<open>content_fts\<close>.
\<close>

theorem scoped_tokens_differ:
  "keywordsOf (utf16 ''an AI model'') = [utf16 ''model''] \<and>
   snd (hybridSearch emptyDb [] (utf16 ''an AI model'') 10 (1 / 5))
     = [VectorQuery [] (1 / 5) None 20, ILikeQuery [] [utf16 ''model''] 20] \<and>
   snd (hybridSearchInDocuments emptyDb [] (utf16 ''an AI model'') [''d1''] 10 (1 / 5))
     = [VectorQuery [] (1 / 5) (Some [''d1'']) 20,
        TsQuery [] (utf16 ''an & AI & model'') [''d1''] 20]"
  by (simp add: hybridSearch_def hybridSearchInDocuments_def emptyDb_def keywordsOf_def tsQueryOf_def
      tsTokensOf_def str_ev)

text \<open>
  What holds of the shortcut. \<open>hybridSearch\<close> takes it exactly when no keyword of more
  than two characters survives, for every query text. \<open>hybridSearchInDocuments\<close> (with a
  document list) takes it only when no token at all survives, and sends a lexical query
  as soon as one token does, whatever its length.
\<close>

lemma hybridSearch_zero_keywords:
  "keywordsOf queryText = [] \<Longrightarrow> vectorRows db (VectorQuery e m None (limit * 2)) = Inr sem \<Longrightarrow>
   hybridSearch db e queryText limit m = (Inr (take limit sem), [VectorQuery e m None (limit * 2)])"
  by (simp add: hybridSearch_def)

lemma hybridSearchInDocuments_zero_tokens:
  "documentIds \<noteq> [] \<Longrightarrow> tsTokensOf queryText = [] \<Longrightarrow>
   vectorRows db (VectorQuery e m (Some documentIds) (limit * 2)) = Inr sem \<Longrightarrow>
   hybridSearchInDocuments db e queryText documentIds limit m
     = (Inr (take limit sem), [VectorQuery e m (Some documentIds) (limit * 2)])"
  by (simp add: hybridSearchInDocuments_def tsQueryOf_empty_iff)

lemma hybridSearchInDocuments_lexical_query:
  "documentIds \<noteq> [] \<Longrightarrow> tsTokensOf queryText \<noteq> [] \<Longrightarrow>
   vectorRows db (VectorQuery e m (Some documentIds) (limit * 2)) = Inr sem \<Longrightarrow>
   snd (hybridSearchInDocuments db e queryText documentIds limit m)
     = [VectorQuery e m (Some documentIds) (limit * 2),
        TsQuery e (tsQueryOf queryText) documentIds (limit * 2)]"
  by (simp add: hybridSearchInDocuments_def tsQueryOf_empty_iff Let_def split: sum.splits)

text \<open>
  Claim C9, evaluated at the query \<open>"an AI"\<close>, of which no keyword survives (both tokens
  have at most two characters), with \<open>limit\<close> 1, on a database whose vector stage returns
  the rows \<open>a, b\<close> and whose lexical stage returns the rows \<open>b, c\<close>. \<open>hybridSearch\<close>
  returns the first vector row, \<open>a\<close>, and sends the vector query only.
  \<open>hybridSearchInDocuments\<close> sends the lexical query \<open>to_tsquery('english', 'an & AI')\<close>
  as well and returns the fused result, the row \<open>b\<close>.
\<close>

theorem scoped_short_tokens_query:
  "keywordsOf (utf16 ''an AI'') = [] \<and>
   hybridSearch exampleDb [] (utf16 ''an AI'') 1 (1 / 5)
     = (Inr [exampleChunk ''a'' (9 / 10)], [VectorQuery [] (1 / 5) None 2]) \<and>
   hybridSearchInDocuments exampleDb [] (utf16 ''an AI'') [''d''] 1 (1 / 5)
     = (Inr [exampleChunk ''b'' (4 / 5)],
        [VectorQuery [] (1 / 5) (Some [''d'']) 2, TsQuery [] (utf16 ''an & AI'') [''d''] 2])"
  by (simp add: hybridSearch_def hybridSearchInDocuments_def exampleDb_def mergeResults_def
      chunkMapOf_def toRanked_def reciprocalRankFusion_def rrfItem_def scoreOf_def RRF_K_def
      exampleChunk_def exampleFtsChunk_def keywordsOf_def tsQueryOf_def tsTokensOf_def str_ev
      SimilarChunk.truncate_def Let_def)


section \<open>Properties of the reranker\<close>

lemma truncate_withOwnScore: "SimilarChunk.truncate (withOwnScore chunk) = chunk"
  by (simp add: withOwnScore_def SimilarChunk.truncate_def)

lemma fallback_fields:
  "map SimilarChunk.truncate (map withOwnScore cs) = cs \<and>
   map rerankScore (map withOwnScore cs) = map similarity cs \<and>
   map originalSimilarity (map withOwnScore cs) = map similarity cs"
  by (induction cs) (simp_all add: truncate_withOwnScore, simp_all add: withOwnScore_def)

text \<open>
  Claim C8. \<open>rerankChunks\<close> always returns a value (no exception leaves it). With more
  than \<open>topN\<close> chunks, when the import of the client fails, the API key is missing or
  empty, or the rerank call is rejected, the value has \<open>topN\<close> entries; stripped of the
  two added scores (\<open>SimilarChunk.truncate\<close>) it is the list of the first \<open>topN\<close> input
  chunks, field for field and in their order, and the \<open>rerankScore\<close> and the
  \<open>originalSimilarity\<close> of each entry are the similarity of its chunk.
\<close>

theorem rerankChunks_degrades:
  "(\<exists>out. rerankChunks env query cs topN = Inr out) \<and>
   (length cs > topN \<and>
      (cohereImport env \<noteq> None \<or> COHERE_API_KEY env = None \<or> COHERE_API_KEY env = Some [] \<or>
       (\<exists>key e. COHERE_API_KEY env = Some key \<and>
                cohereRerank env key query (map content_sc cs) topN = Inl e))
    \<longrightarrow> (\<exists>out. rerankChunks env query cs topN = Inr out \<and>
          length out = topN \<and>
          map SimilarChunk.truncate out = take topN cs \<and>
          map rerankScore out = map similarity (take topN cs) \<and>
          map originalSimilarity out = map similarity (take topN cs)))"
proof (intro conjI impI)
  show "\<exists>out. rerankChunks env query cs topN = Inr out"
    by (simp add: rerankChunks_def split: sum.splits)
next
  assume h: "length cs > topN \<and>
      (cohereImport env \<noteq> None \<or> COHERE_API_KEY env = None \<or> COHERE_API_KEY env = Some [] \<or>
       (\<exists>key e. COHERE_API_KEY env = Some key \<and>
                cohereRerank env key query (map content_sc cs) topN = Inl e))"
  then have len: "cs \<noteq> []" "\<not> length cs \<le> topN" by auto
  from h have "rerankTry env query cs topN = Inr (map withOwnScore (take topN cs))
      \<or> (\<exists>e. rerankTry env query cs topN = Inl e)"
    by (auto simp: rerankTry_def split: option.splits sum.splits)
  with len have r: "rerankChunks env query cs topN = Inr (map withOwnScore (take topN cs))"
    by (auto simp: rerankChunks_def)
  from h have "length (map withOwnScore (take topN cs)) = topN"
    by simp
  with r fallback_fields [of "take topN cs"]
  show "\<exists>out. rerankChunks env query cs topN = Inr out \<and>
          length out = topN \<and>
          map SimilarChunk.truncate out = take topN cs \<and>
          map rerankScore out = map similarity (take topN cs) \<and>
          map originalSimilarity out = map similarity (take topN cs)"
    by blast
qed

theorem rerankChunks_degrades_witness:
  "rerankChunks \<lparr>cohereImport = None, COHERE_API_KEY = None, cohereRerank = (\<lambda>k q d n. Inr [])\<rparr>
      (utf16 ''q'') [exampleChunk ''a'' (1 / 2), exampleChunk ''b'' (1 / 4)] 1
     = Inr [\<lparr>id_sc = ''a'', documentId = ''d'', content_sc = utf16 ''text'', metadata_sc = None,
             similarity = 1 / 2, rerankScore = 1 / 2, originalSimilarity = 1 / 2\<rparr>] \<and>
   rerankChunks
      \<lparr>cohereImport = None, COHERE_API_KEY = Some (utf16 ''key''),
       cohereRerank = (\<lambda>k q d n. Inl (ProviderError ''timeout''))\<rparr>
      (utf16 ''q'') [exampleChunk ''a'' (1 / 2), exampleChunk ''b'' (1 / 4)] 1
     = Inr [\<lparr>id_sc = ''a'', documentId = ''d'', content_sc = utf16 ''text'', metadata_sc = None,
             similarity = 1 / 2, rerankScore = 1 / 2, originalSimilarity = 1 / 2\<rparr>] \<and>
   rerankChunks
      \<lparr>cohereImport = Some (ProviderError ''module not found''),
       COHERE_API_KEY = Some (utf16 ''key''), cohereRerank = (\<lambda>k q d n. Inr [])\<rparr>
      (utf16 ''q'') [exampleChunk ''a'' (1 / 2), exampleChunk ''b'' (1 / 4)] 1
     = Inr [\<lparr>id_sc = ''a'', documentId = ''d'', content_sc = utf16 ''text'', metadata_sc = None,
             similarity = 1 / 2, rerankScore = 1 / 2, originalSimilarity = 1 / 2\<rparr>]"
  using rerankChunks_degrades
      [where topN = 1 and cs = "[exampleChunk ''a'' (1 / 2), exampleChunk ''b'' (1 / 4)]"
        and env = "\<lparr>cohereImport = None, COHERE_API_KEY = None, cohereRerank = (\<lambda>k q d n. Inr [])\<rparr>"
        and query = "utf16 ''q''"]
    rerankChunks_degrades
      [where topN = 1 and cs = "[exampleChunk ''a'' (1 / 2), exampleChunk ''b'' (1 / 4)]"
        and env = "\<lparr>cohereImport = None, COHERE_API_KEY = Some (utf16 ''key''),
          cohereRerank = (\<lambda>k q d n. Inl (ProviderError ''timeout''))\<rparr>"
        and query = "utf16 ''q''"]
    rerankChunks_degrades
      [where topN = 1 and cs = "[exampleChunk ''a'' (1 / 2), exampleChunk ''b'' (1 / 4)]"
        and env = "\<lparr>cohereImport = Some (ProviderError ''module not found''),
          COHERE_API_KEY = Some (utf16 ''key''), cohereRerank = (\<lambda>k q d n. Inr [])\<rparr>"
        and query = "utf16 ''q''"]
  by (simp add: rerankChunks_def rerankTry_def withOwnScore_def exampleChunk_def utf16_def)

end
